theory Spec2Isabelle
  imports Complex_Main "HOL-Library.Word" "HOL-Library.Signed_Division"
begin

section \<open>Data model\<close>

text \<open>
  The repository holds two programs: \<^verbatim>\<open>src/wallclock.c\<close> (Xinerama monitor
  selection, renderer with a \<^verbatim>\<open>force\<close> flag) and \<^verbatim>\<open>src/unnamed/part_000\<close>
  (the fixed-pitch variant). Their structs differ in a few fields only
  (\<^verbatim>\<open>fwidth\<close> exists in part_000 alone; \<^verbatim>\<open>x\<close>, \<^verbatim>\<open>y\<close>, \<^verbatim>\<open>vis\<close> of
  \<^verbatim>\<open>dc\<close> and \<^verbatim>\<open>args.screen\<close> in wallclock.c alone), so one record per struct
  serves both; a program never touches the fields it does not declare.
  Definitions without suffix embed wallclock.c, definitions ending in \<open>_fp\<close>
  embed part_000.
\<close>

text \<open>\<^verbatim>\<open>struct tm\<close> of the C library.\<close>

record tm =
  tm_sec :: int
  tm_min :: int
  tm_hour :: int
  tm_mday :: int
  tm_mon :: int
  tm_year :: int
  tm_wday :: int
  tm_yday :: int
  tm_isdst :: int

record linearg_t =
  fmt :: string
  font :: string
  color :: string
  dy :: int

record args_t =
  args_text1 :: linearg_t
  args_text2 :: linearg_t
  args_background :: string
  args_debug :: int
  args_screen :: int

text \<open>The fields of \<^verbatim>\<open>XftFont\<close> and \<^verbatim>\<open>XGlyphInfo\<close> the programs read.
  \<^verbatim>\<open>width\<close> is an \<^verbatim>\<open>unsigned short\<close>, \<^verbatim>\<open>xOff\<close> a \<^verbatim>\<open>short\<close>.\<close>

record XftFont =
  xf_name :: string
  xf_ascent :: int
  xf_descent :: int
  xf_max_advance_width :: int

record XGlyphInfo =
  gi_width :: "16 word"
  gi_xOff :: "16 word"

type_synonym XID = nat
type_synonym pixel = nat

text \<open>\<^verbatim>\<open>struct line_t\<close>. The pointer \<^verbatim>\<open>xfont\<close> is the font it points to, the
  pointer \<^verbatim>\<open>arg\<close> the (immutable after start-up) \<^verbatim>\<open>linearg_t\<close> it points to,
  \<^verbatim>\<open>buf\<close> the C string held in the 64-byte array.\<close>

record line_t =
  buf :: string
  y :: int
  ascent :: int
  height :: int
  fwidth :: int
  warned :: bool
  xfont :: XftFont
  xftcolor :: pixel
  arg :: linearg_t

record dc_t =
  dc_bg :: pixel
  dc_dpy :: nat
  dc_screen :: int
  dc_root :: XID
  dc_x :: int
  dc_y :: int
  dc_w :: int
  dc_h :: int
  dc_gc :: XID
  dc_da :: XID
  dc_cmap :: XID
  dc_vis :: nat
  dc_text1 :: line_t
  dc_text2 :: line_t

text \<open>A \<^verbatim>\<open>struct line_t *\<close> is one of the two addresses \<^verbatim>\<open>&dc.text1\<close>,
  \<^verbatim>\<open>&dc.text2\<close>.\<close>

datatype line_ref = Text1 | Text2

text \<open>Diagnostics written by \<^verbatim>\<open>err\<close>, \<^verbatim>\<open>errx\<close>, \<^verbatim>\<open>warn\<close>, \<^verbatim>\<open>warnx\<close> and
  \<^verbatim>\<open>printf\<close>, with the arguments of the format string. \<open>Excessive_width\<close> also
  records the line that was being rendered.\<close>

datatype diag =
    Strftime_failed string
  | Localtime_failed
  | Excessive_width line_ref int string string
  | Non_monospaced string
  | Cannot_open_display
  | Cannot_load_font string
  | Cannot_load_color string
  | Exceeds_screens int int
  | Poll_failed
  | Caught int
  | Font_metrics string int int int
  | Geometry int int int int

text \<open>Everything the process does to the outside, in program order. The
  display and the single graphics context, which every call receives, are
  left out of the requests.\<close>

datatype event =
    XftTextExtentsUtf8 XftFont string nat
  | XSetForeground pixel
  | XFillRectangle XID int int int int
  | XftDrawCreate XID
  | XftDrawStringUtf8 line_ref XftFont int int string nat
  | XftDrawDestroy
  | XCopyArea XID XID int int int int int int
  | XSync
  | XCreatePixmap XID int int
  | XCreateGC XID
  | XSelectInput XID
  | XFree
  | XClearWindow XID
  | XFreePixmap XID
  | XftColorFree pixel
  | XFreeGC XID
  | XCloseDisplay
  | Err diag
  | Errx diag
  | Warn diag
  | Warnx diag
  | Printf diag

record world =
  args :: args_t
  running :: bool
  dc :: dc_t
  trace :: "event list"

text \<open>How a run ends early: \<^verbatim>\<open>exit(n)\<close>, or a read outside an array.\<close>

datatype halt = Exit int | Out_of_bounds

record XineramaScreenInfo =
  x_org :: int
  y_org :: int
  width :: int
  height_px :: int

text \<open>What the X server, Xft and the C library answer. \<open>expand\<close> is the text
  a format yields for a time when space is unlimited.\<close>

record env =
  expand :: "string \<Rightarrow> tm \<Rightarrow> string"
  extents :: "XftFont \<Rightarrow> string \<Rightarrow> XGlyphInfo"
  XOpenDisplay :: nat
  DefaultScreen :: int
  DisplayWidth :: int
  DisplayHeight :: int
  RootWindow :: XID
  DefaultColormap :: XID
  DefaultVisual :: nat
  XineramaIsActive :: bool
  XineramaQueryScreens :: "XineramaScreenInfo list"
  new_pixmap :: XID
  new_gc :: XID
  XAllocNamedColor :: "string \<Rightarrow> pixel option"
  XftFontOpenName :: "string \<Rightarrow> XftFont option"
  XftColorAllocName :: "string \<Rightarrow> pixel option"

section \<open>Helpers shared by both programs\<close>

definition emit :: "event \<Rightarrow> world \<Rightarrow> world" where
  "emit ev s = s\<lparr>trace := trace s @ [ev]\<rparr>"

fun deref :: "line_ref \<Rightarrow> world \<Rightarrow> line_t" where
  "deref Text1 s = dc_text1 (dc s)"
| "deref Text2 s = dc_text2 (dc s)"

fun update :: "line_ref \<Rightarrow> (line_t \<Rightarrow> line_t) \<Rightarrow> world \<Rightarrow> world" where
  "update Text1 f s = s\<lparr>dc := (dc s)\<lparr>dc_text1 := f (dc_text1 (dc s))\<rparr>\<rparr>"
| "update Text2 f s = s\<lparr>dc := (dc s)\<lparr>dc_text2 := f (dc_text2 (dc s))\<rparr>\<rparr>"

text \<open>\<^verbatim>\<open>strftime(buf, maxsize, fmt, tmp)\<close>: the number of bytes placed and the
  string in \<^verbatim>\<open>buf\<close> when the text and its terminating NUL fit in \<open>maxsize\<close> bytes,
  0 otherwise (the array is then unspecified; the callers never read it).
  An empty text gives 0 as well.\<close>

definition strftime :: "env \<Rightarrow> nat \<Rightarrow> string \<Rightarrow> tm \<Rightarrow> nat \<times> string" where
  "strftime e maxsize f tmp =
     (let s = expand e f tmp
      in if length s + 1 \<le> maxsize then (length s, s) else (0, []))"

text \<open>\<^verbatim>\<open>strncpy(dst, src, n)\<close> for a source shorter than \<open>n\<close> leaves \<open>src\<close>
  in \<open>dst\<close>, NUL-padded.\<close>

definition strncpy :: "string \<Rightarrow> nat \<Rightarrow> string" where
  "strncpy src n = take n src"

section \<open>src/wallclock.c\<close>

definition textnw :: "env \<Rightarrow> XftFont \<Rightarrow> string \<Rightarrow> nat \<Rightarrow> world \<Rightarrow> int \<times> world" where
  "textnw e xf text len s =
     (sint (gi_xOff (extents e xf (take len text))),
      emit (XftTextExtentsUtf8 xf text len) s)"

definition drawtext ::
  "env \<Rightarrow> line_ref \<Rightarrow> tm \<Rightarrow> bool \<Rightarrow> world \<Rightarrow> (halt \<times> world) + (bool \<times> world)" where
  "drawtext e lp tmp force s =
     (let line = deref lp s;
          (n, b) = strftime e 64 (fmt (arg line)) tmp
      in if n = 0 then Inl (Exit 1, emit (Err (Strftime_failed (fmt (arg line)))) s)
         else if \<not> force \<and> b = buf line then Inr (False, s)
         else
           let len = length b;
               (w, s) = textnw e (xfont line) b len s;
               s = (if \<not> warned line \<and> w > dc_w (dc s)
                    then emit (Warnx (Excessive_width lp w b (font (arg line))))
                           (update lp (\<lambda>l. l\<lparr>warned := True\<rparr>) s)
                    else s);
               s = emit (XSetForeground
                           (if args_debug (args s) > 2 then 0x302030 else dc_bg (dc s))) s;
               s = emit (XFillRectangle (dc_da (dc s)) (dc_x (dc s)) (y line)
                           (dc_w (dc s)) (height line)) s;
               s = emit (XftDrawCreate (dc_da (dc s))) s;
               s = emit (XftDrawStringUtf8 lp (xfont line)
                           ((dc_w (dc s) - w) sdiv 2) (y line + ascent line) b len) s;
               s = emit XftDrawDestroy s;
               s = update lp (\<lambda>l. l\<lparr>buf := strncpy b 64\<rparr>) s
           in Inr (True, s))"

text \<open>\<open>now\<close> is what \<^verbatim>\<open>localtime(time(NULL))\<close> returns, \<open>None\<close> for NULL.\<close>

definition draw :: "env \<Rightarrow> tm option \<Rightarrow> world \<Rightarrow> (halt \<times> world) + (bool \<times> world)" where
  "draw e now s =
     (case now of
        None \<Rightarrow> Inl (Exit 1, emit (Err Localtime_failed) s)
      | Some tmp \<Rightarrow>
          (case drawtext e Text1 tmp False s of
             Inl h \<Rightarrow> Inl h
           | Inr (dirty, s) \<Rightarrow>
               (case drawtext e Text2 tmp dirty s of
                  Inl h \<Rightarrow> Inl h
                | Inr (dirty, s) \<Rightarrow> Inr (dirty, emit XSync s))))"


text \<open>\<^verbatim>\<open>initline\<close>. When the font cannot be opened the process exits at
  once, so the NULL stored in \<^verbatim>\<open>line->xfont\<close> is never read and the line is
  left as it was. The four \<^verbatim>\<open>printf\<close> calls of the debug branch are one
  event.\<close>

definition initline ::
  "env \<Rightarrow> line_ref \<Rightarrow> linearg_t \<Rightarrow> world \<Rightarrow> (halt \<times> world) + world" where
  "initline e lp a s =
     (case XftFontOpenName e (font a) of
        None \<Rightarrow> Inl (Exit 1, emit (Errx (Cannot_load_font (font a))) s)
      | Some xf \<Rightarrow>
         (let s = update lp (\<lambda>l. l\<lparr>xfont := xf\<rparr>) s;
              s = update lp (\<lambda>l. l\<lparr>ascent := xf_ascent xf\<rparr>) s;
              s = update lp (\<lambda>l. l\<lparr>height := xf_ascent xf + xf_descent xf\<rparr>) s;
              s = (if args_debug (args s) > 1
                   then emit (Printf (Font_metrics (font a) (xf_ascent xf) (xf_descent xf)
                                        (height (deref lp s)))) s
                   else s)
          in (case XftColorAllocName e (color a) of
                None \<Rightarrow> Inl (Exit 1, emit (Errx (Cannot_load_color (color a))) s)
              | Some c \<Rightarrow>
                  Inr (update lp (\<lambda>l. l\<lparr>xftcolor := c, warned := False, arg := a\<rparr>) s))))"

text \<open>The loop \<^verbatim>\<open>for (i = 0; i < n; ++i) if (info[i].x_org == 0) break;\<close> of
  \<^verbatim>\<open>setup\<close>: the value of \<open>i\<close> after it.\<close>

function first_origin :: "XineramaScreenInfo list \<Rightarrow> nat \<Rightarrow> nat" where
  "first_origin info i =
     (if i < length info
      then (if x_org (info ! i) = 0 then i else first_origin info (Suc i))
      else i)"
  by pat_completeness auto
termination
  by (relation "measure (\<lambda>(info, i). length info - i)") auto

declare first_origin.simps [simp del]

text \<open>The array read \<^verbatim>\<open>info[i]\<close> for an \<^verbatim>\<open>int\<close> index.\<close>

definition info_at :: "XineramaScreenInfo list \<Rightarrow> int \<Rightarrow> XineramaScreenInfo option" where
  "info_at info i = (if 0 \<le> i \<and> i < int (length info) then Some (info ! nat i) else None)"

text \<open>The block \<^verbatim>\<open>if (XineramaIsActive(dc.dpy)) { ... }\<close> of \<^verbatim>\<open>setup\<close>.\<close>

definition setup_xinerama :: "env \<Rightarrow> world \<Rightarrow> (halt \<times> world) + world" where
  "setup_xinerama e s =
     (if XineramaIsActive e then
        let info = XineramaQueryScreens e;
            n = int (length info)
        in if args_screen (args s) \<noteq> - 1 \<and> args_screen (args s) \<ge> n
           then Inl (Exit 1, emit (Errx (Exceeds_screens (args_screen (args s)) n)) s)
           else
             let i = (if args_screen (args s) \<noteq> - 1 then args_screen (args s)
                      else int (first_origin info 0))
             in (case info_at info i of
                   None \<Rightarrow> Inl (Out_of_bounds, s)
                 | Some m \<Rightarrow>
                     Inr (emit XFree
                           (s\<lparr>dc := (dc s)\<lparr>dc_x := x_org m, dc_y := y_org m,
                                            dc_w := width m, dc_h := height_px m\<rparr>\<rparr>)))
      else Inr s)"

text \<open>\<^verbatim>\<open>setup\<close> of wallclock.c; \<open>now\<close> is the time its call of \<^verbatim>\<open>draw\<close>
  reads.\<close>

definition setup_wc :: "env \<Rightarrow> tm option \<Rightarrow> world \<Rightarrow> (halt \<times> world) + world" where
  "setup_wc e now s =
     (if XOpenDisplay e = 0 then Inl (Exit 1, emit (Errx Cannot_open_display) s)
      else
        let s = s\<lparr>dc := (dc s)\<lparr>dc_dpy := XOpenDisplay e, dc_screen := DefaultScreen e,
                     dc_x := 0, dc_y := 0, dc_w := DisplayWidth e, dc_h := DisplayHeight e,
                     dc_root := RootWindow e, dc_cmap := DefaultColormap e,
                     dc_vis := DefaultVisual e\<rparr>\<rparr>
        in (case setup_xinerama e s of
             Inl h \<Rightarrow> Inl h
           | Inr s \<Rightarrow>
              (let s = (if args_debug (args s) > 1
                        then emit (Printf (Geometry (dc_x (dc s)) (dc_y (dc s))
                                             (dc_w (dc s)) (dc_h (dc s)))) s
                        else s);
                   s = emit (XCreatePixmap (new_pixmap e) (dc_w (dc s)) (dc_h (dc s)))
                         (s\<lparr>dc := (dc s)\<lparr>dc_da := new_pixmap e\<rparr>\<rparr>);
                   s = emit (XCreateGC (new_gc e)) (s\<lparr>dc := (dc s)\<lparr>dc_gc := new_gc e\<rparr>\<rparr>)
               in (case XAllocNamedColor e (args_background (args s)) of
                    None \<Rightarrow>
                      Inl (Exit 1, emit (Errx (Cannot_load_color (args_background (args s)))) s)
                  | Some p \<Rightarrow>
                      (case initline e Text1 (args_text1 (args s))
                              (s\<lparr>dc := (dc s)\<lparr>dc_bg := p\<rparr>\<rparr>) of
                         Inl h \<Rightarrow> Inl h
                       | Inr s \<Rightarrow>
                           (case initline e Text2 (args_text2 (args s)) s of
                              Inl h \<Rightarrow> Inl h
                            | Inr s \<Rightarrow>
                               (let s = update Text1 (\<lambda>l. l\<lparr>y :=
                                          (dc_h (dc s) - height (dc_text1 (dc s))
                                             - height (dc_text2 (dc s))) sdiv 2
                                          + dy (args_text1 (args s))\<rparr>) s;
                                    s = update Text2 (\<lambda>l. l\<lparr>y :=
                                          y (dc_text1 (dc s)) + height (dc_text1 (dc s))
                                          + dy (args_text2 (args s))\<rparr>) s;
                                    s = emit (XSetForeground (dc_bg (dc s))) s;
                                    s = emit (XFillRectangle (dc_da (dc s)) (dc_x (dc s))
                                                (dc_y (dc s)) (dc_w (dc s)) (dc_h (dc s))) s;
                                    s = emit (XSelectInput (dc_root (dc s))) s
                                in (case draw e now s of
                                      Inl h \<Rightarrow> Inl h
                                    | Inr (_, s) \<Rightarrow>
                                        Inr (emit XSync
                                              (emit (XCopyArea (dc_da (dc s)) (dc_root (dc s))
                                                       0 0 (dc_w (dc s)) (dc_h (dc s))
                                                       (dc_x (dc s)) (dc_y (dc s))) s))))))))))"

definition catch :: "int \<Rightarrow> world \<Rightarrow> world" where
  "catch signal s = s\<lparr>running := False\<rparr>"

definition cleanup :: "world \<Rightarrow> world" where
  "cleanup s =
     (let s = emit (XClearWindow (dc_root (dc s))) s;
          s = emit (XFreePixmap (dc_da (dc s))) s;
          s = emit (XftColorFree (xftcolor (dc_text1 (dc s)))) s;
          s = emit (XftColorFree (xftcolor (dc_text2 (dc s)))) s;
          s = emit (XFreeGC (dc_gc (dc s))) s
      in emit XCloseDisplay s)"

text \<open>One pass through the body of \<^verbatim>\<open>while (running)\<close> in \<^verbatim>\<open>main\<close>. A tick
  is what the outside supplies to the pass: the signals delivered while
  \<^verbatim>\<open>poll\<close> waits, the value \<^verbatim>\<open>poll\<close> returns, and the local time.\<close>

record tick =
  t_signals :: "int list"
  t_poll :: int
  t_now :: "tm option"

definition iteration :: "env \<Rightarrow> tick \<Rightarrow> world \<Rightarrow> (halt \<times> world) + world" where
  "iteration e t s =
     (let s = foldl (\<lambda>s sg. catch sg s) s (t_signals t);
          r = (if t_poll t = - 1 then Inr (False, emit (Warn Poll_failed) s)
               else if t_poll t = 0 then draw e (t_now t) s
               else Inr (True, s))
      in case r of
           Inl h \<Rightarrow> Inl h
         | Inr (dirty, s) \<Rightarrow>
             Inr (if dirty
                  then emit XSync
                         (emit (XCopyArea (dc_da (dc s)) (dc_root (dc s))
                                  0 0 (dc_w (dc s)) (dc_h (dc s))
                                  (dc_x (dc s)) (dc_y (dc s))) s)
                  else s))"

text \<open>The loop on the ticks supplied so far: \<open>Inr s\<close> is the state at the
  loop head, either with the ticks used up or with \<open>running\<close> cleared.\<close>

fun main_loop :: "env \<Rightarrow> tick list \<Rightarrow> world \<Rightarrow> (halt \<times> world) + world" where
  "main_loop e [] s = Inr s"
| "main_loop e (t # ts) s =
     (if running s
      then (case iteration e t s of Inl h \<Rightarrow> Inl h | Inr s' \<Rightarrow> main_loop e ts s')
      else Inr s)"

text \<open>The statically initialised globals: \<^verbatim>\<open>dc\<close> is zeroed, \<^verbatim>\<open>running\<close> is
  true, \<^verbatim>\<open>args\<close> holds the values left by the command line.\<close>

definition zero_line :: line_t where
  "zero_line = \<lparr>buf = [], y = 0, ascent = 0, height = 0, fwidth = 0, warned = False,
     xfont = \<lparr>xf_name = [], xf_ascent = 0, xf_descent = 0, xf_max_advance_width = 0\<rparr>,
     xftcolor = 0, arg = \<lparr>fmt = [], font = [], color = [], dy = 0\<rparr>\<rparr>"

definition zero_dc :: dc_t where
  "zero_dc = \<lparr>dc_bg = 0, dc_dpy = 0, dc_screen = 0, dc_root = 0, dc_x = 0, dc_y = 0,
     dc_w = 0, dc_h = 0, dc_gc = 0, dc_da = 0, dc_cmap = 0, dc_vis = 0,
     dc_text1 = zero_line, dc_text2 = zero_line\<rparr>"

definition default_args :: args_t where
  "default_args = \<lparr>
     args_text1 = \<lparr>fmt = ''%H:%M'', font = ''DejaVuSansMono:style=bold:size=400'',
                    color = ''#202020'', dy = 0\<rparr>,
     args_text2 = \<lparr>fmt = ''%Y-%m-%d %a. v. %V'', font = ''DejaVuSansMono:style=bold:size=60'',
                    color = ''#303030'', dy = 0\<rparr>,
     args_background = ''#000000'', args_debug = 1, args_screen = - 1\<rparr>"

definition start :: "args_t \<Rightarrow> world" where
  "start a = \<lparr>args = a, running = True, dc = zero_dc, trace = []\<rparr>"

text \<open>\<^verbatim>\<open>main\<close> from the call of \<^verbatim>\<open>setup\<close> on: the state reached on the ticks
  supplied, with \<^verbatim>\<open>cleanup\<close> and \<^verbatim>\<open>return 0\<close> once the loop has been left.\<close>

definition main :: "env \<Rightarrow> args_t \<Rightarrow> tm option \<Rightarrow> tick list \<Rightarrow> (halt \<times> world) + world" where
  "main e a now ts =
     (case setup_wc e now (start a) of
        Inl h \<Rightarrow> Inl h
      | Inr s \<Rightarrow>
          (case main_loop e ts s of
             Inl h \<Rightarrow> Inl h
           | Inr s \<Rightarrow> if running s then Inr s else Inl (Exit 0, cleanup s)))"

section \<open>src/unnamed/part_000\<close>

text \<open>The value an \<^verbatim>\<open>int\<close> receives from a wider unsigned product: its low
  32 bits, read as two's complement.\<close>

definition c_int :: "int \<Rightarrow> int" where
  "c_int k = (k + 2147483648) mod 4294967296 - 2147483648"

definition textnw_fp :: "env \<Rightarrow> XftFont \<Rightarrow> string \<Rightarrow> nat \<Rightarrow> world \<Rightarrow> int \<times> world" where
  "textnw_fp e xf text len s =
     (uint (gi_width (extents e xf (take len text))),
      emit (XftTextExtentsUtf8 xf text len) s)"

text \<open>\<^verbatim>\<open>initline\<close>. The comparison \<^verbatim>\<open>fwidth > textnw(...) * 1.5\<close> is made in
  \<^verbatim>\<open>double\<close>, which holds both sides exactly (a 32-bit integer, and one and
  a half times a 16-bit one).\<close>

definition initline_fp ::
  "env \<Rightarrow> line_ref \<Rightarrow> linearg_t \<Rightarrow> world \<Rightarrow> (halt \<times> world) + world" where
  "initline_fp e lp a s =
     (case XftFontOpenName e (font a) of
        None \<Rightarrow> Inl (Exit 1, emit (Errx (Cannot_load_font (font a))) s)
      | Some xf \<Rightarrow>
         (let s = update lp (\<lambda>l. l\<lparr>xfont := xf\<rparr>) s;
              s = update lp (\<lambda>l. l\<lparr>ascent := xf_ascent xf\<rparr>) s;
              s = update lp (\<lambda>l. l\<lparr>height := xf_ascent xf + xf_descent xf\<rparr>) s;
              s = update lp (\<lambda>l. l\<lparr>fwidth := xf_max_advance_width xf\<rparr>) s;
              (w0, s) = textnw_fp e xf ''0'' 1 s;
              s = (if real_of_int (fwidth (deref lp s)) > real_of_int w0 * 1.5
                   then update lp (\<lambda>l. l\<lparr>fwidth := 0\<rparr>)
                          (if args_debug (args s) > 0
                           then emit (Warnx (Non_monospaced (font a))) s
                           else s)
                   else s)
          in (case XftColorAllocName e (color a) of
                None \<Rightarrow> Inl (Exit 1, emit (Errx (Cannot_load_color (color a))) s)
              | Some c \<Rightarrow>
                  Inr (update lp (\<lambda>l. l\<lparr>xftcolor := c, warned := False, arg := a\<rparr>) s))))"

definition setup_fp :: "env \<Rightarrow> world \<Rightarrow> (halt \<times> world) + world" where
  "setup_fp e s =
     (if XOpenDisplay e = 0 then Inl (Exit 1, emit (Errx Cannot_open_display) s)
      else
        let s = s\<lparr>dc := (dc s)\<lparr>dc_dpy := XOpenDisplay e, dc_screen := DefaultScreen e,
                     dc_w := DisplayWidth e, dc_h := DisplayHeight e,
                     dc_root := RootWindow e, dc_cmap := DefaultColormap e\<rparr>\<rparr>;
            s = emit (XCreatePixmap (new_pixmap e) (dc_w (dc s)) (dc_h (dc s)))
                  (s\<lparr>dc := (dc s)\<lparr>dc_da := new_pixmap e\<rparr>\<rparr>);
            s = emit (XCreateGC (new_gc e)) (s\<lparr>dc := (dc s)\<lparr>dc_gc := new_gc e\<rparr>\<rparr>)
        in (case XAllocNamedColor e (args_background (args s)) of
              None \<Rightarrow>
                Inl (Exit 1, emit (Errx (Cannot_load_color (args_background (args s)))) s)
            | Some p \<Rightarrow>
                (case initline_fp e Text1 (args_text1 (args s))
                        (s\<lparr>dc := (dc s)\<lparr>dc_bg := p\<rparr>\<rparr>) of
                   Inl h \<Rightarrow> Inl h
                 | Inr s \<Rightarrow>
                     (case initline_fp e Text2 (args_text2 (args s)) s of
                        Inl h \<Rightarrow> Inl h
                      | Inr s \<Rightarrow>
                         (let s = update Text1 (\<lambda>l. l\<lparr>y :=
                                    (dc_h (dc s) - height (dc_text1 (dc s))
                                       - height (dc_text2 (dc s))) sdiv 2
                                    + dy (args_text1 (args s))\<rparr>) s;
                              s = update Text2 (\<lambda>l. l\<lparr>y :=
                                    y (dc_text1 (dc s)) + height (dc_text1 (dc s))
                                    + dy (args_text2 (args s))\<rparr>) s;
                              s = emit (XSetForeground (dc_bg (dc s))) s;
                              s = emit (XFillRectangle (dc_da (dc s)) 0 0
                                          (dc_w (dc s)) (dc_h (dc s))) s
                          in Inr (emit (XSelectInput (dc_root (dc s))) s))))))"

definition drawtext_fp ::
  "env \<Rightarrow> line_ref \<Rightarrow> tm \<Rightarrow> world \<Rightarrow> (halt \<times> world) + world" where
  "drawtext_fp e lp tmp s =
     (let line = deref lp s;
          (n, b) = strftime e 64 (fmt (arg line)) tmp
      in if n = 0 then Inl (Exit 1, emit (Err (Strftime_failed (fmt (arg line)))) s)
         else if b = buf line then Inr s
         else
           let len = length b;
               w = c_int (fwidth line * int len);
               ew = 0;
               (w, ew, s) = (if w = 0
                             then (let (w, s) = textnw_fp e (xfont line) b len s
                                   in (w, w sdiv 8, s))
                             else (w, ew, s));
               s = (if \<not> warned line \<and> w + ew > dc_w (dc s)
                    then emit (Warnx (Excessive_width lp (w + ew) b (font (arg line))))
                           (update lp (\<lambda>l. l\<lparr>warned := True\<rparr>) s)
                    else s);
               s = emit (XSetForeground
                           (if args_debug (args s) > 2 then 0x302030 else dc_bg (dc s))) s;
               s = emit (XFillRectangle (dc_da (dc s)) ((dc_w (dc s) - w) sdiv 2) (y line)
                           (w + ew) (height line)) s;
               s = emit (XftDrawCreate (dc_da (dc s))) s;
               s = emit (XftDrawStringUtf8 lp (xfont line)
                           ((dc_w (dc s) - w + ew) sdiv 2) (y line + ascent line) b len) s;
               s = emit XftDrawDestroy s
           in Inr (update lp (\<lambda>l. l\<lparr>buf := strncpy b 64\<rparr>) s))"

definition draw_fp :: "env \<Rightarrow> bool \<Rightarrow> tm option \<Rightarrow> world \<Rightarrow> (halt \<times> world) + world" where
  "draw_fp e dirty now s =
     (let r = (if dirty
               then (case now of
                       None \<Rightarrow> Inl (Exit 1, emit (Err Localtime_failed) s)
                     | Some tmp \<Rightarrow>
                         (case drawtext_fp e Text1 tmp s of
                            Inl h \<Rightarrow> Inl h
                          | Inr s \<Rightarrow> drawtext_fp e Text2 tmp s))
               else Inr s)
      in case r of
           Inl h \<Rightarrow> Inl h
         | Inr s \<Rightarrow>
             Inr (emit XSync
                   (emit (XCopyArea (dc_da (dc s)) (dc_root (dc s))
                            0 0 (dc_w (dc s)) (dc_h (dc s)) 0 0) s)))"

definition catch_fp :: "int \<Rightarrow> world \<Rightarrow> world" where
  "catch_fp signal s = (emit (Printf (Caught signal)) s)\<lparr>running := False\<rparr>"

definition iteration_fp :: "env \<Rightarrow> tick \<Rightarrow> world \<Rightarrow> (halt \<times> world) + world" where
  "iteration_fp e t s =
     (let s = foldl (\<lambda>s sg. catch_fp sg s) s (t_signals t)
      in if t_poll t = - 1 then Inr (emit (Warn Poll_failed) s)
         else if t_poll t = 0 then draw_fp e True (t_now t) s
         else draw_fp e False (t_now t) s)"

fun main_loop_fp :: "env \<Rightarrow> tick list \<Rightarrow> world \<Rightarrow> (halt \<times> world) + world" where
  "main_loop_fp e [] s = Inr s"
| "main_loop_fp e (t # ts) s =
     (if running s
      then (case iteration_fp e t s of Inl h \<Rightarrow> Inl h | Inr s' \<Rightarrow> main_loop_fp e ts s')
      else Inr s)"

definition main_fp :: "env \<Rightarrow> args_t \<Rightarrow> tm option \<Rightarrow> tick list \<Rightarrow> (halt \<times> world) + world" where
  "main_fp e a now ts =
     (case setup_fp e (start a) of
        Inl h \<Rightarrow> Inl h
      | Inr s \<Rightarrow>
          (case draw_fp e True now s of
             Inl h \<Rightarrow> Inl h
           | Inr s \<Rightarrow>
               (case main_loop_fp e ts s of
                  Inl h \<Rightarrow> Inl h
                | Inr s \<Rightarrow> if running s then Inr s else Inl (Exit 0, cleanup s))))"

section \<open>Observations on the trace\<close>

text \<open>The requests a call added to the trace.\<close>

definition new_events :: "world \<Rightarrow> world \<Rightarrow> event list" where
  "new_events s s' = drop (length (trace s)) (trace s')"

text \<open>The state in which a call ends, whether it returns or exits.\<close>

fun after :: "(halt \<times> world) + world \<Rightarrow> world" where
  "after (Inl (h, s)) = s"
| "after (Inr s) = s"

fun after_b :: "(halt \<times> world) + (bool \<times> world) \<Rightarrow> world" where
  "after_b (Inl (h, s)) = s"
| "after_b (Inr (d, s)) = s"

text \<open>The rectangles cleared, the strings drawn for one line, the copies
  to the root window, and the excessive-width diagnostics of one line.\<close>

fun fills :: "event list \<Rightarrow> (XID \<times> int \<times> int \<times> int \<times> int) list" where
  "fills [] = []"
| "fills (XFillRectangle d x0 y0 w h # evs) = (d, x0, y0, w, h) # fills evs"
| "fills (_ # evs) = fills evs"

fun painted :: "line_ref \<Rightarrow> event list \<Rightarrow> (int \<times> int \<times> string) list" where
  "painted lp [] = []"
| "painted lp (XftDrawStringUtf8 l xf x0 y0 b n # evs) =
     (if l = lp then (x0, y0, take n b) # painted lp evs else painted lp evs)"
| "painted lp (_ # evs) = painted lp evs"

fun copies :: "event list \<Rightarrow> (XID \<times> XID) list" where
  "copies [] = []"
| "copies (XCopyArea src dst sx sy w h dx dy0 # evs) = (src, dst) # copies evs"
| "copies (_ # evs) = copies evs"

fun excessive :: "line_ref \<Rightarrow> event list \<Rightarrow> nat" where
  "excessive lp [] = 0"
| "excessive lp (Warnx (Excessive_width l w b f) # evs) =
     (if l = lp then Suc (excessive lp evs) else excessive lp evs)"
| "excessive lp (_ # evs) = excessive lp evs"

text \<open>The diagnostics written by \<^verbatim>\<open>warnx\<close> and the width measurements
  requested.\<close>

fun warnings :: "event list \<Rightarrow> diag list" where
  "warnings [] = []"
| "warnings (Warnx d # evs) = d # warnings evs"
| "warnings (_ # evs) = warnings evs"

fun measurements :: "event list \<Rightarrow> string list" where
  "measurements [] = []"
| "measurements (XftTextExtentsUtf8 xf b n # evs) = take n b # measurements evs"
| "measurements (_ # evs) = measurements evs"

text \<open>The string most recently painted for a line, empty when there is none.\<close>

definition last_painted :: "line_ref \<Rightarrow> event list \<Rightarrow> string" where
  "last_painted lp evs =
     (case rev (painted lp evs) of [] \<Rightarrow> [] | (x0, y0, b) # _ \<Rightarrow> b)"

section \<open>The renderer of wallclock.c in closed form\<close>

text \<open>These two definitions are not part of the program: they name the
  requests \<^verbatim>\<open>drawtext\<close> issues when it repaints a line with the text \<open>b\<close>,
  and the state it leaves. Lemma \<open>drawtext_eq\<close> below proves that \<open>drawtext\<close>,
  as embedded above, computes exactly this.\<close>

definition repaint :: "env \<Rightarrow> line_ref \<Rightarrow> string \<Rightarrow> world \<Rightarrow> event list" where
  "repaint e lp b s =
     (let line = deref lp s; w = sint (gi_xOff (extents e (xfont line) b))
      in XftTextExtentsUtf8 (xfont line) b (length b) #
         (if \<not> warned line \<and> w > dc_w (dc s)
          then [Warnx (Excessive_width lp w b (font (arg line)))] else []) @
         [XSetForeground (if args_debug (args s) > 2 then 0x302030 else dc_bg (dc s)),
          XFillRectangle (dc_da (dc s)) (dc_x (dc s)) (y line) (dc_w (dc s)) (height line),
          XftDrawCreate (dc_da (dc s)),
          XftDrawStringUtf8 lp (xfont line) ((dc_w (dc s) - w) sdiv 2)
            (y line + ascent line) b (length b),
          XftDrawDestroy])"

definition repainted :: "env \<Rightarrow> line_ref \<Rightarrow> string \<Rightarrow> world \<Rightarrow> world" where
  "repainted e lp b s =
     (update lp (\<lambda>l. l\<lparr>buf := b,
         warned := warned l \<or> sint (gi_xOff (extents e (xfont l) b)) > dc_w (dc s)\<rparr>) s)
       \<lparr>trace := trace s @ repaint e lp b s\<rparr>"

section \<open>The renderer of part_000 in closed form\<close>

text \<open>Likewise for \<open>drawtext_fp\<close> (lemma \<open>drawtext_fp_eq\<close>): whether a
  repaint measures the text (the product of \<open>fwidth\<close> and the length is 0),
  the width \<open>w\<close> and the slack \<open>ew\<close> it computes, its requests and the state
  it leaves.\<close>

definition measure_fp :: "env \<Rightarrow> line_t \<Rightarrow> string \<Rightarrow> bool" where
  "measure_fp e line b = (c_int (fwidth line * int (length b)) = 0)"

definition width_fp :: "env \<Rightarrow> line_t \<Rightarrow> string \<Rightarrow> int" where
  "width_fp e line b =
     (if measure_fp e line b then uint (gi_width (extents e (xfont line) b))
      else c_int (fwidth line * int (length b)))"

definition slack_fp :: "env \<Rightarrow> line_t \<Rightarrow> string \<Rightarrow> int" where
  "slack_fp e line b = (if measure_fp e line b then width_fp e line b sdiv 8 else 0)"

definition repaint_fp :: "env \<Rightarrow> line_ref \<Rightarrow> string \<Rightarrow> world \<Rightarrow> event list" where
  "repaint_fp e lp b s =
     (let line = deref lp s; w = width_fp e line b; ew = slack_fp e line b
      in (if measure_fp e line b then [XftTextExtentsUtf8 (xfont line) b (length b)] else []) @
         (if \<not> warned line \<and> w + ew > dc_w (dc s)
          then [Warnx (Excessive_width lp (w + ew) b (font (arg line)))] else []) @
         [XSetForeground (if args_debug (args s) > 2 then 0x302030 else dc_bg (dc s)),
          XFillRectangle (dc_da (dc s)) ((dc_w (dc s) - w) sdiv 2) (y line) (w + ew)
            (height line),
          XftDrawCreate (dc_da (dc s)),
          XftDrawStringUtf8 lp (xfont line) ((dc_w (dc s) - w + ew) sdiv 2)
            (y line + ascent line) b (length b),
          XftDrawDestroy])"

definition repainted_fp :: "env \<Rightarrow> line_ref \<Rightarrow> string \<Rightarrow> world \<Rightarrow> world" where
  "repainted_fp e lp b s =
     (update lp (\<lambda>l. l\<lparr>buf := b,
         warned := warned l \<or> width_fp e l b + slack_fp e l b > dc_w (dc s)\<rparr>) s)
       \<lparr>trace := trace s @ repaint_fp e lp b s\<rparr>"

section \<open>Invariants of a run\<close>

text \<open>\<open>inv_buf\<close>: the buffer of each line holds the string last painted for
  it. \<open>inv_warn\<close>: a line has at most one excessive-width diagnostic, and
  none while its \<open>warned\<close> flag is clear. \<open>fresh\<close>: nothing has been painted
  or diagnosed yet and both buffers are empty, as at program start.\<close>

definition inv_buf :: "world \<Rightarrow> bool" where
  "inv_buf s =
     (buf (dc_text1 (dc s)) = last_painted Text1 (trace s) \<and>
      buf (dc_text2 (dc s)) = last_painted Text2 (trace s))"

definition inv_warn :: "world \<Rightarrow> bool" where
  "inv_warn s =
     (excessive Text1 (trace s) \<le> (if warned (dc_text1 (dc s)) then 1 else 0) \<and>
      excessive Text2 (trace s) \<le> (if warned (dc_text2 (dc s)) then 1 else 0))"

definition fresh :: "world \<Rightarrow> bool" where
  "fresh s =
     (buf (dc_text1 (dc s)) = [] \<and> buf (dc_text2 (dc s)) = [] \<and>
      painted Text1 (trace s) = [] \<and> painted Text2 (trace s) = [] \<and>
      excessive Text1 (trace s) = 0 \<and> excessive Text2 (trace s) = 0)"

definition inv :: "world \<Rightarrow> bool" where
  "inv s = (inv_buf s \<and> inv_warn s)"

section \<open>What a tick formats\<close>

text \<open>Whether \<^verbatim>\<open>strftime\<close> succeeds on the format of a line, the text it
  leaves in the buffer, and whether that text differs from the text the
  line holds.\<close>

definition formats_ok :: "env \<Rightarrow> line_ref \<Rightarrow> tm \<Rightarrow> world \<Rightarrow> bool" where
  "formats_ok e lp tmp s = (fst (strftime e 64 (fmt (arg (deref lp s))) tmp) \<noteq> 0)"

definition formatted :: "env \<Rightarrow> line_ref \<Rightarrow> tm \<Rightarrow> world \<Rightarrow> string" where
  "formatted e lp tmp s = snd (strftime e 64 (fmt (arg (deref lp s))) tmp)"

definition changed :: "env \<Rightarrow> line_ref \<Rightarrow> tm \<Rightarrow> world \<Rightarrow> bool" where
  "changed e lp tmp s = (formatted e lp tmp s \<noteq> buf (deref lp s))"

text \<open>The width \<^verbatim>\<open>textnw\<close> of wallclock.c reports for a line's font.\<close>

definition measured :: "env \<Rightarrow> line_ref \<Rightarrow> string \<Rightarrow> world \<Rightarrow> int" where
  "measured e lp b s = sint (gi_xOff (extents e (xfont (deref lp s)) b))"

text \<open>The number of characters of a UTF-8 text: its bytes other than the
  continuation bytes, which are those from 128 to 191.\<close>

definition char_count :: "string \<Rightarrow> nat" where
  "char_count b =
     length (filter (\<lambda>c. (of_char c :: nat) < 128 \<or> 192 \<le> (of_char c :: nat)) b)"

section \<open>Geometry\<close>

text \<open>The surface geometry is that of the monitor \<open>m\<close>.\<close>

definition placed :: "XineramaScreenInfo \<Rightarrow> world \<Rightarrow> bool" where
  "placed m s =
     (dc_x (dc s) = x_org m \<and> dc_y (dc s) = y_org m \<and>
      dc_w (dc s) = width m \<and> dc_h (dc s) = height_px m)"

section \<open>Concrete inputs\<close>

text \<open>A display 3200 wide and 1080 high made of two monitors side by side
  (1920 by 1080 at the origin, 1280 by 1024 to its right), a font whose
  glyphs are 70 wide with a maximum advance of 100 (120 for the font named
  \<open>wide\<close>), and formats that expand to the minute (\<open>%M\<close>) or to themselves.\<close>

definition demo_font :: "string \<Rightarrow> XftFont" where
  "demo_font name = \<lparr>xf_name = name, xf_ascent = 80, xf_descent = 20,
     xf_max_advance_width = (if name = ''wide'' then 120 else 100)\<rparr>"

definition demo_env :: env where
  "demo_env = \<lparr>
     expand = (\<lambda>f t. if f = ''%M'' then (if tm_min t = 0 then ''00'' else ''01'') else f),
     extents = (\<lambda>xf b. \<lparr>gi_width = of_nat (70 * length b), gi_xOff = of_nat (70 * length b)\<rparr>),
     XOpenDisplay = 1, DefaultScreen = 0, DisplayWidth = 3200, DisplayHeight = 1080,
     RootWindow = 7, DefaultColormap = 3, DefaultVisual = 4,
     XineramaIsActive = True,
     XineramaQueryScreens =
       [\<lparr>x_org = 0, y_org = 0, width = 1920, height_px = 1080\<rparr>,
        \<lparr>x_org = 1920, y_org = 0, width = 1280, height_px = 1024\<rparr>],
     new_pixmap = 9, new_gc = 10,
     XAllocNamedColor = (\<lambda>name. Some 0),
     XftFontOpenName = (\<lambda>name. Some (demo_font name)),
     XftColorAllocName = (\<lambda>name. Some 5)\<rparr>"

definition demo_tm :: "int \<Rightarrow> tm" where
  "demo_tm m = \<lparr>tm_sec = 0, tm_min = m, tm_hour = 12, tm_mday = 2, tm_mon = 10,
     tm_year = 126, tm_wday = 1, tm_yday = 305, tm_isdst = 0\<rparr>"

definition demo_args :: args_t where
  "demo_args = \<lparr>
     args_text1 = \<lparr>fmt = ''%M'', font = ''mono'', color = ''#202020'', dy = 0\<rparr>,
     args_text2 = \<lparr>fmt = ''Monday'', font = ''mono'', color = ''#303030'', dy = 0\<rparr>,
     args_background = ''#000000'', args_debug = 1, args_screen = - 1\<rparr>"

text \<open>A state in the loop: both lines were painted at minute 0.\<close>

definition demo_line1 :: line_t where
  "demo_line1 = \<lparr>buf = ''00'', y = 440, ascent = 80, height = 100, fwidth = 100,
     warned = False, xfont = demo_font ''mono'', xftcolor = 5, arg = args_text1 demo_args\<rparr>"

definition demo_line2 :: line_t where
  "demo_line2 = \<lparr>buf = ''Monday'', y = 540, ascent = 80, height = 100, fwidth = 100,
     warned = False, xfont = demo_font ''mono'', xftcolor = 5, arg = args_text2 demo_args\<rparr>"

definition demo_world :: world where
  "demo_world = \<lparr>args = demo_args, running = True,
     dc = \<lparr>dc_bg = 0, dc_dpy = 1, dc_screen = 0, dc_root = 7, dc_x = 0, dc_y = 0,
            dc_w = 1920, dc_h = 1080, dc_gc = 10, dc_da = 9, dc_cmap = 3, dc_vis = 4,
            dc_text1 = demo_line1, dc_text2 = demo_line2\<rparr>,
     trace = []\<rparr>"

definition demo_tick :: "int \<Rightarrow> int \<Rightarrow> tick" where
  "demo_tick p m = \<lparr>t_signals = [], t_poll = p, t_now = Some (demo_tm m)\<rparr>"

text \<open>The same state with a second format whose text has 64 bytes.\<close>

definition long_world :: world where
  "long_world =
     update Text2 (\<lambda>l. l\<lparr>arg := (arg l)\<lparr>fmt := replicate 64 CHR ''x''\<rparr>\<rparr>) demo_world"

text \<open>The same state on a surface 100 wide, narrower than any text.\<close>

definition narrow_world :: world where
  "narrow_world = demo_world\<lparr>dc := (dc demo_world)\<lparr>dc_w := 100\<rparr>\<rparr>"

text \<open>Start-up with \<^verbatim>\<open>-q\<close> (debug level 0), and a first line in the font
  \<open>wide\<close>.\<close>

definition quiet_start :: world where
  "quiet_start = start (demo_args\<lparr>args_debug := 0\<rparr>)"

definition wide_arg :: linearg_t where
  "wide_arg = \<lparr>fmt = ''%M'', font = ''wide'', color = ''#202020'', dy = 0\<rparr>"

text \<open>The same servers without Xinerama.\<close>

definition plain_env :: env where
  "plain_env = demo_env\<lparr>XineramaIsActive := False, XineramaQueryScreens := []\<rparr>"

text \<open>\<open>demo_world\<close> with a first line that was found not to be monospaced.\<close>

definition prop_world :: world where
  "prop_world = update Text1 (\<lambda>l. l\<lparr>fwidth := 0\<rparr>) demo_world"

section \<open>Basic facts\<close>

lemma emit_simps [simp]:
  "trace (emit ev s) = trace s @ [ev]"
  "dc (emit ev s) = dc s"
  "args (emit ev s) = args s"
  "running (emit ev s) = running s"
  by (simp_all add: emit_def)

lemma update_simps [simp]:
  "trace (update lp f s) = trace s"
  "args (update lp f s) = args s"
  "running (update lp f s) = running s"
  by (cases lp; simp)+

lemma deref_emit [simp]: "deref lp (emit ev s) = deref lp s"
  by (cases lp) simp_all

lemma deref_update [simp]:
  "deref lp (update lp' f s) = (if lp = lp' then f (deref lp s) else deref lp s)"
  by (cases lp; cases lp'; simp)

lemma update_geometry [simp]:
  "dc_w (dc (update lp f s)) = dc_w (dc s)"
  "dc_h (dc (update lp f s)) = dc_h (dc s)"
  "dc_x (dc (update lp f s)) = dc_x (dc s)"
  "dc_y (dc (update lp f s)) = dc_y (dc s)"
  "dc_da (dc (update lp f s)) = dc_da (dc s)"
  "dc_root (dc (update lp f s)) = dc_root (dc s)"
  "dc_bg (dc (update lp f s)) = dc_bg (dc s)"
  "dc_gc (dc (update lp f s)) = dc_gc (dc s)"
  by (cases lp; simp)+

lemma deref_trace_update [simp]: "deref lp (s\<lparr>trace := t\<rparr>) = deref lp s"
  by (cases lp) simp_all

lemma deref_running_update [simp]: "deref lp (s\<lparr>running := r\<rparr>) = deref lp s"
  by (cases lp) simp_all

lemma strftime_fits:
  "fst (strftime e 64 f tmp) \<noteq> 0 \<Longrightarrow> length (snd (strftime e 64 f tmp)) < 64"
  by (simp add: strftime_def Let_def split: if_splits)

lemma strftime_too_long:
  "63 < length (expand e f tmp) \<Longrightarrow> fst (strftime e 64 f tmp) = 0"
  by (simp add: strftime_def Let_def)

lemma strncpy_fits [simp]: "length b < n \<Longrightarrow> strncpy b n = b"
  by (simp add: strncpy_def)

lemma new_events_append [simp]: "trace s' = trace s @ evs \<Longrightarrow> new_events s s' = evs"
  by (simp add: new_events_def)

lemma new_events_same [simp]: "new_events s s = []"
  by (simp add: new_events_def)

lemma fills_append [simp]: "fills (xs @ ys) = fills xs @ fills ys"
  by (induction xs rule: fills.induct) simp_all

lemma painted_append [simp]: "painted lp (xs @ ys) = painted lp xs @ painted lp ys"
  by (induction lp xs rule: painted.induct) simp_all

lemma copies_append [simp]: "copies (xs @ ys) = copies xs @ copies ys"
  by (induction xs rule: copies.induct) simp_all

lemma excessive_append [simp]: "excessive lp (xs @ ys) = excessive lp xs + excessive lp ys"
  by (induction lp xs rule: excessive.induct) simp_all

lemma last_painted_append:
  "last_painted lp (xs @ ys) =
     (if painted lp ys = [] then last_painted lp xs else last_painted lp ys)"
  by (simp add: last_painted_def split: list.splits)

section \<open>Closed forms of the renderers\<close>

lemma drawtext_eq:
  "drawtext e lp tmp force s =
     (let f = fmt (arg (deref lp s)); r = strftime e 64 f tmp
      in if fst r = 0 then Inl (Exit 1, emit (Err (Strftime_failed f)) s)
         else if \<not> force \<and> snd r = buf (deref lp s) then Inr (False, s)
         else Inr (True, repainted e lp (snd r) s))"
proof (cases "fst (strftime e 64 (fmt (arg (deref lp s))) tmp) = 0")
  case True
  then show ?thesis by (simp add: drawtext_def Let_def split_def)
next
  case False
  then have len: "length (snd (strftime e 64 (fmt (arg (deref lp s))) tmp)) < 64"
    by (rule strftime_fits)
  show ?thesis
    using False len
    by (cases lp) (simp_all add: drawtext_def Let_def split_def textnw_def repainted_def
        repaint_def emit_def)
qed

lemma drawtext_fp_eq:
  "drawtext_fp e lp tmp s =
     (let f = fmt (arg (deref lp s)); r = strftime e 64 f tmp
      in if fst r = 0 then Inl (Exit 1, emit (Err (Strftime_failed f)) s)
         else if snd r = buf (deref lp s) then Inr s
         else Inr (repainted_fp e lp (snd r) s))"
proof (cases "fst (strftime e 64 (fmt (arg (deref lp s))) tmp) = 0")
  case True
  then show ?thesis by (simp add: drawtext_fp_def Let_def split_def)
next
  case False
  then have len: "length (snd (strftime e 64 (fmt (arg (deref lp s))) tmp)) < 64"
    by (rule strftime_fits)
  show ?thesis
    using False len
    by (cases lp) (simp_all add: drawtext_fp_def Let_def split_def textnw_fp_def repainted_fp_def
        repaint_fp_def emit_def measure_fp_def width_fp_def slack_fp_def)
qed




section \<open>Facts about one repaint\<close>

lemma repainted_simps [simp]:
  "trace (repainted e lp b s) = trace s @ repaint e lp b s"
  "args (repainted e lp b s) = args s"
  "running (repainted e lp b s) = running s"
  "deref lp' (repainted e lp b s) =
     (if lp' = lp
      then (deref lp s)\<lparr>buf := b,
             warned := warned (deref lp s) \<or>
               sint (gi_xOff (extents e (xfont (deref lp s)) b)) > dc_w (dc s)\<rparr>
      else deref lp' s)"
  by (simp_all add: repainted_def)

lemma repainted_fp_simps [simp]:
  "trace (repainted_fp e lp b s) = trace s @ repaint_fp e lp b s"
  "args (repainted_fp e lp b s) = args s"
  "running (repainted_fp e lp b s) = running s"
  "deref lp' (repainted_fp e lp b s) =
     (if lp' = lp
      then (deref lp s)\<lparr>buf := b,
             warned := warned (deref lp s) \<or>
               width_fp e (deref lp s) b + slack_fp e (deref lp s) b > dc_w (dc s)\<rparr>
      else deref lp' s)"
  by (simp_all add: repainted_fp_def)

lemma repainted_geometry [simp]:
  "dc_w (dc (repainted e lp b s)) = dc_w (dc s)"
  "dc_h (dc (repainted e lp b s)) = dc_h (dc s)"
  "dc_x (dc (repainted e lp b s)) = dc_x (dc s)"
  "dc_y (dc (repainted e lp b s)) = dc_y (dc s)"
  "dc_da (dc (repainted e lp b s)) = dc_da (dc s)"
  "dc_root (dc (repainted e lp b s)) = dc_root (dc s)"
  "dc_bg (dc (repainted e lp b s)) = dc_bg (dc s)"
  by (simp_all add: repainted_def)

lemma repainted_fp_geometry [simp]:
  "dc_w (dc (repainted_fp e lp b s)) = dc_w (dc s)"
  "dc_h (dc (repainted_fp e lp b s)) = dc_h (dc s)"
  "dc_da (dc (repainted_fp e lp b s)) = dc_da (dc s)"
  "dc_root (dc (repainted_fp e lp b s)) = dc_root (dc s)"
  "dc_bg (dc (repainted_fp e lp b s)) = dc_bg (dc s)"
  by (simp_all add: repainted_fp_def)

lemma painted_repaint [simp]:
  "painted lp' (repaint e lp b s) =
     (if lp = lp'
      then [((dc_w (dc s) - sint (gi_xOff (extents e (xfont (deref lp s)) b))) sdiv 2,
             y (deref lp s) + ascent (deref lp s), b)]
      else [])"
  by (simp add: repaint_def Let_def)

lemma painted_repaint_fp [simp]:
  "painted lp' (repaint_fp e lp b s) =
     (if lp = lp'
      then [((dc_w (dc s) - width_fp e (deref lp s) b + slack_fp e (deref lp s) b) sdiv 2,
             y (deref lp s) + ascent (deref lp s), b)]
      else [])"
  by (simp add: repaint_fp_def Let_def)

lemma excessive_repaint [simp]:
  "excessive lp' (repaint e lp b s) =
     (if lp = lp' \<and> \<not> warned (deref lp s) \<and>
         sint (gi_xOff (extents e (xfont (deref lp s)) b)) > dc_w (dc s) then 1 else 0)"
  by (simp add: repaint_def Let_def)

lemma excessive_repaint_fp [simp]:
  "excessive lp' (repaint_fp e lp b s) =
     (if lp = lp' \<and> \<not> warned (deref lp s) \<and>
         width_fp e (deref lp s) b + slack_fp e (deref lp s) b > dc_w (dc s) then 1 else 0)"
  by (simp add: repaint_fp_def Let_def)

lemma fills_repaint [simp]:
  "fills (repaint e lp b s) =
     [(dc_da (dc s), dc_x (dc s), y (deref lp s), dc_w (dc s), height (deref lp s))]"
  by (simp add: repaint_def Let_def)

lemma fills_repaint_fp [simp]:
  "fills (repaint_fp e lp b s) =
     [(dc_da (dc s), (dc_w (dc s) - width_fp e (deref lp s) b) sdiv 2, y (deref lp s),
       width_fp e (deref lp s) b + slack_fp e (deref lp s) b, height (deref lp s))]"
  by (simp add: repaint_fp_def Let_def)

lemma copies_repaint [simp]: "copies (repaint e lp b s) = []"
  by (simp add: repaint_def Let_def)

lemma copies_repaint_fp [simp]: "copies (repaint_fp e lp b s) = []"
  by (simp add: repaint_fp_def Let_def)

lemmas demo_defs =
  demo_env_def demo_world_def demo_line1_def demo_line2_def demo_args_def demo_tm_def
  demo_font_def demo_tick_def long_world_def narrow_world_def quiet_start_def wide_arg_def
  plain_env_def prop_world_def

lemma demo_strftime1 [simp]:
  "strftime demo_env 64 (fmt (arg (dc_text1 (dc demo_world)))) (demo_tm m) =
     (2, if m = 0 then ''00'' else ''01'')"
  by (simp add: strftime_def demo_defs)

lemma demo_strftime2 [simp]:
  "strftime demo_env 64 (fmt (arg (dc_text2 (dc demo_world)))) (demo_tm m) = (6, ''Monday'')"
  by (simp add: strftime_def demo_defs)

lemma demo_bufs [simp]:
  "buf (dc_text1 (dc demo_world)) = ''00''" "buf (dc_text2 (dc demo_world)) = ''Monday''"
  by (simp_all add: demo_defs)


section \<open>One redraw in closed form\<close>

lemma formats_repainted [simp]:
  "lp' \<noteq> lp \<Longrightarrow> formats_ok e lp' tmp (repainted e lp b s) = formats_ok e lp' tmp s"
  "lp' \<noteq> lp \<Longrightarrow> formatted e lp' tmp (repainted e lp b s) = formatted e lp' tmp s"
  "lp' \<noteq> lp \<Longrightarrow> changed e lp' tmp (repainted e lp b s) = changed e lp' tmp s"
  "lp' \<noteq> lp \<Longrightarrow> formats_ok e lp' tmp (repainted_fp e lp b s) = formats_ok e lp' tmp s"
  "lp' \<noteq> lp \<Longrightarrow> formatted e lp' tmp (repainted_fp e lp b s) = formatted e lp' tmp s"
  "lp' \<noteq> lp \<Longrightarrow> changed e lp' tmp (repainted_fp e lp b s) = changed e lp' tmp s"
  by (simp_all add: formats_ok_def formatted_def changed_def)

lemma drawtext_ok:
  "formats_ok e lp tmp s \<Longrightarrow>
   drawtext e lp tmp force s =
     (if force \<or> changed e lp tmp s
      then Inr (True, repainted e lp (formatted e lp tmp s) s) else Inr (False, s))"
  by (simp add: drawtext_eq Let_def formats_ok_def formatted_def changed_def)

lemma drawtext_fp_ok:
  "formats_ok e lp tmp s \<Longrightarrow>
   drawtext_fp e lp tmp s =
     (if changed e lp tmp s
      then Inr (repainted_fp e lp (formatted e lp tmp s) s) else Inr s)"
  by (simp add: drawtext_fp_eq Let_def formats_ok_def formatted_def changed_def)

lemma draw_ok:
  assumes "formats_ok e Text1 tmp s" "formats_ok e Text2 tmp s"
  shows "draw e (Some tmp) s =
     Inr (changed e Text1 tmp s \<or> changed e Text2 tmp s,
          emit XSync
            (if changed e Text1 tmp s
             then repainted e Text2 (formatted e Text2 tmp s)
                    (repainted e Text1 (formatted e Text1 tmp s) s)
             else if changed e Text2 tmp s
                  then repainted e Text2 (formatted e Text2 tmp s) s
                  else s))"
  using assms by (simp add: draw_def drawtext_ok)

lemma draw_fp_ok:
  assumes "formats_ok e Text1 tmp s" "formats_ok e Text2 tmp s"
  shows "draw_fp e True (Some tmp) s =
     Inr (emit XSync
           (emit (XCopyArea (dc_da (dc s)) (dc_root (dc s)) 0 0 (dc_w (dc s)) (dc_h (dc s)) 0 0)
             (if changed e Text1 tmp s
              then (if changed e Text2 tmp s
                    then repainted_fp e Text2 (formatted e Text2 tmp s)
                           (repainted_fp e Text1 (formatted e Text1 tmp s) s)
                    else repainted_fp e Text1 (formatted e Text1 tmp s) s)
              else if changed e Text2 tmp s
                   then repainted_fp e Text2 (formatted e Text2 tmp s) s
                   else s)))"
  using assms by (simp add: draw_fp_def drawtext_fp_ok)


section \<open>Signals and the present step\<close>

lemma signals_catch:
  "foldl (\<lambda>s sg. catch sg s) s sgs = (if sgs = [] then s else s\<lparr>running := False\<rparr>)"
  by (induction sgs arbitrary: s) (simp_all add: catch_def)

lemma signals_catch_fp:
  "foldl (\<lambda>s sg. catch_fp sg s) s sgs =
     s\<lparr>running := running s \<and> sgs = [], trace := trace s @ map (\<lambda>sg. Printf (Caught sg)) sgs\<rparr>"
  by (induction sgs arbitrary: s) (simp_all add: catch_fp_def emit_def)

lemma copies_printf [simp]: "copies (map (\<lambda>sg. Printf (Caught sg)) sgs) = []"
  by (induction sgs) simp_all

lemma formats_running [simp]:
  "formats_ok e lp tmp (s\<lparr>running := r\<rparr>) = formats_ok e lp tmp s"
  "formatted e lp tmp (s\<lparr>running := r\<rparr>) = formatted e lp tmp s"
  "changed e lp tmp (s\<lparr>running := r\<rparr>) = changed e lp tmp s"
  "formats_ok e lp tmp (s\<lparr>trace := t\<rparr>) = formats_ok e lp tmp s"
  "formatted e lp tmp (s\<lparr>trace := t\<rparr>) = formatted e lp tmp s"
  "changed e lp tmp (s\<lparr>trace := t\<rparr>) = changed e lp tmp s"
  by (simp_all add: formats_ok_def formatted_def changed_def)

lemma draw_fp_present:
  "draw_fp e False now s =
     Inr (emit XSync
           (emit (XCopyArea (dc_da (dc s)) (dc_root (dc s)) 0 0 (dc_w (dc s)) (dc_h (dc s)) 0 0)
              s))"
  by (simp add: draw_fp_def)


section \<open>The invariants are kept by every step\<close>

lemma update_text [simp]:
  "dc_text1 (dc (update lp f s)) = (if lp = Text1 then f (dc_text1 (dc s)) else dc_text1 (dc s))"
  "dc_text2 (dc (update lp f s)) = (if lp = Text2 then f (dc_text2 (dc s)) else dc_text2 (dc s))"
  by (cases lp; simp)+

lemma repainted_text [simp]:
  "dc_text1 (dc (repainted e lp b s)) =
     (if lp = Text1
      then (dc_text1 (dc s))\<lparr>buf := b,
             warned := warned (dc_text1 (dc s)) \<or> measured e Text1 b s > dc_w (dc s)\<rparr>
      else dc_text1 (dc s))"
  "dc_text2 (dc (repainted e lp b s)) =
     (if lp = Text2
      then (dc_text2 (dc s))\<lparr>buf := b,
             warned := warned (dc_text2 (dc s)) \<or> measured e Text2 b s > dc_w (dc s)\<rparr>
      else dc_text2 (dc s))"
  by (simp_all add: repainted_def measured_def)

lemma repainted_fp_text [simp]:
  "dc_text1 (dc (repainted_fp e lp b s)) =
     (if lp = Text1
      then (dc_text1 (dc s))\<lparr>buf := b,
             warned := warned (dc_text1 (dc s)) \<or>
               width_fp e (dc_text1 (dc s)) b + slack_fp e (dc_text1 (dc s)) b > dc_w (dc s)\<rparr>
      else dc_text1 (dc s))"
  "dc_text2 (dc (repainted_fp e lp b s)) =
     (if lp = Text2
      then (dc_text2 (dc s))\<lparr>buf := b,
             warned := warned (dc_text2 (dc s)) \<or>
               width_fp e (dc_text2 (dc s)) b + slack_fp e (dc_text2 (dc s)) b > dc_w (dc s)\<rparr>
      else dc_text2 (dc s))"
  by (simp_all add: repainted_fp_def)

lemma inv_buf_repainted: "inv_buf s \<Longrightarrow> inv_buf (repainted e lp b s)"
  by (cases lp) (simp_all add: inv_buf_def last_painted_append, simp_all add: last_painted_def)

lemma inv_buf_repainted_fp: "inv_buf s \<Longrightarrow> inv_buf (repainted_fp e lp b s)"
  by (cases lp) (simp_all add: inv_buf_def last_painted_append, simp_all add: last_painted_def)

lemma inv_warn_repainted: "inv_warn s \<Longrightarrow> inv_warn (repainted e lp b s)"
  by (cases lp) (auto simp add: inv_warn_def measured_def split: if_splits)

lemma inv_warn_repainted_fp: "inv_warn s \<Longrightarrow> inv_warn (repainted_fp e lp b s)"
  by (cases lp) (auto simp add: inv_warn_def split: if_splits)

lemma inv_buf_emit:
  "painted Text1 [ev] = [] \<Longrightarrow> painted Text2 [ev] = [] \<Longrightarrow> inv_buf s \<Longrightarrow> inv_buf (emit ev s)"
  by (simp add: inv_buf_def last_painted_append)

lemma inv_warn_emit:
  "excessive Text1 [ev] = 0 \<Longrightarrow> excessive Text2 [ev] = 0 \<Longrightarrow> inv_warn s \<Longrightarrow>
   inv_warn (emit ev s)"
  by (simp add: inv_warn_def)

lemma inv_emit:
  "painted Text1 [ev] = [] \<Longrightarrow> painted Text2 [ev] = [] \<Longrightarrow>
   excessive Text1 [ev] = 0 \<Longrightarrow> excessive Text2 [ev] = 0 \<Longrightarrow> inv s \<Longrightarrow> inv (emit ev s)"
  by (simp add: inv_def inv_buf_emit inv_warn_emit)

lemma inv_running [simp]: "inv (s\<lparr>running := r\<rparr>) = inv s"
  by (simp add: inv_def inv_buf_def inv_warn_def)

lemma inv_drawtext: "inv s \<Longrightarrow> inv (after_b (drawtext e lp tmp force s))"
  by (simp add: drawtext_eq Let_def inv_def inv_buf_repainted inv_warn_repainted
      inv_buf_emit inv_warn_emit)

lemma inv_drawtext_fp: "inv s \<Longrightarrow> inv (after (drawtext_fp e lp tmp s))"
  by (simp add: drawtext_fp_eq Let_def inv_def inv_buf_repainted_fp inv_warn_repainted_fp
      inv_buf_emit inv_warn_emit)

lemma inv_draw:
  assumes "inv s"
  shows "inv (after_b (draw e now s))"
proof (cases now)
  case None
  with assms show ?thesis by (simp add: draw_def inv_emit)
next
  case (Some tmp)
  show ?thesis
  proof (cases "drawtext e Text1 tmp False s")
    case (Inl a)
    with inv_drawtext [OF assms, of e Text1 tmp False] Some show ?thesis
      by (cases a) (simp add: draw_def)
  next
    case (Inr b)
    obtain d s1 where b: "b = (d, s1)" by (cases b)
    with Inr inv_drawtext [OF assms, of e Text1 tmp False] have i1: "inv s1" by simp
    show ?thesis
    proof (cases "drawtext e Text2 tmp d s1")
      case (Inl a)
      with inv_drawtext [OF i1, of e Text2 tmp d] Inr b Some show ?thesis
        by (cases a) (simp add: draw_def)
    next
      case r2: (Inr b2)
      obtain d2 s2 where b2: "b2 = (d2, s2)" by (cases b2)
      with r2 inv_drawtext [OF i1, of e Text2 tmp d] have "inv s2" by simp
      then have "inv (emit XSync s2)" by (simp add: inv_emit)
      with Inr b r2 b2 Some show ?thesis by (simp add: draw_def)
    qed
  qed
qed

lemma inv_draw_fp:
  assumes "inv s"
  shows "inv (after (draw_fp e dirty now s))"
proof -
  have present: "inv (emit XSync (emit (XCopyArea a b c d w h x0 y0) s'))" if "inv s'" for s' a b c d w h x0 y0
    using that by (simp add: inv_emit)
  show ?thesis
  proof (cases dirty)
    case False
    with assms present show ?thesis by (simp add: draw_fp_def)
  next
    case True
    show ?thesis
    proof (cases now)
      case None
      with assms True show ?thesis by (simp add: draw_fp_def inv_emit)
    next
      case (Some tmp)
      show ?thesis
      proof (cases "drawtext_fp e Text1 tmp s")
        case (Inl a)
        with inv_drawtext_fp [OF assms, of e Text1 tmp] Some True show ?thesis
          by (cases a) (simp add: draw_fp_def)
      next
        case (Inr s1)
        with inv_drawtext_fp [OF assms, of e Text1 tmp] have i1: "inv s1" by simp
        show ?thesis
        proof (cases "drawtext_fp e Text2 tmp s1")
          case (Inl a)
          with inv_drawtext_fp [OF i1, of e Text2 tmp] Inr Some True show ?thesis
            by (cases a) (simp add: draw_fp_def)
        next
          case r2: (Inr s2)
          with inv_drawtext_fp [OF i1, of e Text2 tmp] have "inv s2" by simp
          then have "inv (emit XSync (emit (XCopyArea (dc_da (dc s2)) (dc_root (dc s2)) 0 0
              (dc_w (dc s2)) (dc_h (dc s2)) 0 0) s2))"
            by (rule present)
          with Inr r2 Some True show ?thesis by (simp add: draw_fp_def)
        qed
      qed
    qed
  qed
qed

lemma inv_signals: "inv (foldl (\<lambda>s sg. catch sg s) s sgs) = inv s"
  by (simp add: signals_catch)

lemma inv_signals_fp: "inv s \<Longrightarrow> inv (foldl (\<lambda>s sg. catch_fp sg s) s sgs)"
  by (induction sgs arbitrary: s) (simp_all add: catch_fp_def inv_emit)

lemma inv_iteration:
  assumes "inv s"
  shows "inv (after (iteration e t s))"
proof -
  let ?s0 = "foldl (\<lambda>s sg. catch sg s) s (t_signals t)"
  have i0: "inv ?s0" using assms by (simp add: inv_signals)
  have present: "inv (emit XSync (emit (XCopyArea a b c d w h x0 y0) s'))" if "inv s'" for s' a b c d w h x0 y0
    using that by (simp add: inv_emit)
  consider "t_poll t = - 1" | "t_poll t = 0" | "t_poll t \<noteq> - 1" "t_poll t \<noteq> 0" by blast
  then show ?thesis
  proof cases
    case 1
    with i0 show ?thesis by (simp add: iteration_def Let_def inv_emit)
  next
    case 2
    show ?thesis
    proof (cases "draw e (t_now t) ?s0")
      case (Inl a)
      with inv_draw [OF i0, of e "t_now t"] 2 show ?thesis
        by (cases a) (simp add: iteration_def Let_def)
    next
      case (Inr b)
      obtain d s1 where b: "b = (d, s1)" by (cases b)
      with Inr inv_draw [OF i0, of e "t_now t"] have "inv s1" by simp
      with Inr b 2 present show ?thesis by (simp add: iteration_def Let_def)
    qed
  next
    case 3
    with i0 present show ?thesis by (simp add: iteration_def Let_def)
  qed
qed

lemma inv_iteration_fp:
  assumes "inv s"
  shows "inv (after (iteration_fp e t s))"
proof -
  let ?s0 = "foldl (\<lambda>s sg. catch_fp sg s) s (t_signals t)"
  have i0: "inv ?s0" using assms by (rule inv_signals_fp)
  show ?thesis
    using inv_draw_fp [OF i0] i0 by (simp add: iteration_fp_def Let_def inv_emit)
qed

lemma inv_main_loop: "inv s \<Longrightarrow> inv (after (main_loop e ts s))"
proof (induction ts arbitrary: s)
  case Nil
  then show ?case by simp
next
  case (Cons t ts)
  show ?case
  proof (cases "running s")
    case False
    with Cons.prems show ?thesis by simp
  next
    case True
    show ?thesis
    proof (cases "iteration e t s")
      case (Inl a)
      with inv_iteration [OF Cons.prems, of e t] True show ?thesis by (cases a) simp
    next
      case (Inr s1)
      with inv_iteration [OF Cons.prems, of e t] have "inv s1" by simp
      then have "inv (after (main_loop e ts s1))" by (rule Cons.IH)
      with Inr True show ?thesis by simp
    qed
  qed
qed

lemma inv_main_loop_fp: "inv s \<Longrightarrow> inv (after (main_loop_fp e ts s))"
proof (induction ts arbitrary: s)
  case Nil
  then show ?case by simp
next
  case (Cons t ts)
  show ?case
  proof (cases "running s")
    case False
    with Cons.prems show ?thesis by simp
  next
    case True
    show ?thesis
    proof (cases "iteration_fp e t s")
      case (Inl a)
      with inv_iteration_fp [OF Cons.prems, of e t] True show ?thesis by (cases a) simp
    next
      case (Inr s1)
      with inv_iteration_fp [OF Cons.prems, of e t] have "inv s1" by simp
      then have "inv (after (main_loop_fp e ts s1))" by (rule Cons.IH)
      with Inr True show ?thesis by simp
    qed
  qed
qed

lemma inv_cleanup: "inv s \<Longrightarrow> inv (cleanup s)"
  by (simp add: cleanup_def Let_def inv_emit)


section \<open>Start-up establishes the invariants\<close>

lemma fresh_inv: "fresh s \<Longrightarrow> inv s"
  by (simp add: fresh_def inv_def inv_buf_def inv_warn_def last_painted_def)

lemma fresh_start: "fresh (start a)"
  by (simp add: fresh_def start_def zero_dc_def zero_line_def)

lemma fresh_emit:
  "painted Text1 [ev] = [] \<Longrightarrow> painted Text2 [ev] = [] \<Longrightarrow>
   excessive Text1 [ev] = 0 \<Longrightarrow> excessive Text2 [ev] = 0 \<Longrightarrow> fresh (emit ev s) = fresh s"
  by (simp add: fresh_def)

lemma fresh_update:
  "(\<And>l. buf (f l) = buf l) \<Longrightarrow> fresh (update lp f s) = fresh s"
  by (cases lp) (simp_all add: fresh_def)

lemma fresh_initline:
  "fresh s \<Longrightarrow> fresh (after (initline e lp a s))"
  by (simp add: initline_def Let_def fresh_emit fresh_update split: option.splits)

lemma fresh_initline_fp:
  "fresh s \<Longrightarrow> fresh (after (initline_fp e lp a s))"
  by (simp add: initline_fp_def Let_def textnw_fp_def fresh_emit fresh_update
      split: option.splits)

lemma fresh_setup_xinerama:
  "fresh s \<Longrightarrow> fresh (after (setup_xinerama e s))"
  by (simp add: setup_xinerama_def Let_def fresh_def split: option.splits)

lemma after_bind:
  assumes "P (after f)"
    and "\<And>s'. P s' \<Longrightarrow> Q (after (g s'))"
    and "\<And>s'. P s' \<Longrightarrow> Q s'"
  shows "Q (after (case f of Inl h \<Rightarrow> Inl h | Inr s' \<Rightarrow> g s'))"
proof (cases f)
  case (Inl a)
  with assms(1,3) show ?thesis by (cases a) simp
next
  case (Inr b)
  with assms(1,2) show ?thesis by simp
qed

lemma after_bind_b:
  assumes "P (after_b f)"
    and "\<And>d s'. P s' \<Longrightarrow> Q (after (g d s'))"
    and "\<And>s'. P s' \<Longrightarrow> Q s'"
  shows "Q (after (case f of Inl h \<Rightarrow> Inl h | Inr (d, s') \<Rightarrow> g d s'))"
proof (cases f)
  case (Inl a)
  with assms(1,3) show ?thesis by (cases a) simp
next
  case (Inr b)
  with assms(1,2) show ?thesis by (cases b) simp
qed

lemma fresh_dc_fields:
  "fresh (s\<lparr>dc := (dc s)\<lparr>dc_dpy := a1, dc_screen := a2, dc_x := a3, dc_y := a4, dc_w := a5,
     dc_h := a6, dc_root := a7, dc_cmap := a8, dc_vis := a9\<rparr>\<rparr>) = fresh s"
  "fresh (s\<lparr>dc := (dc s)\<lparr>dc_dpy := a1, dc_screen := a2, dc_w := a5,
     dc_h := a6, dc_root := a7, dc_cmap := a8\<rparr>\<rparr>) = fresh s"
  "fresh (s\<lparr>dc := (dc s)\<lparr>dc_da := b1\<rparr>\<rparr>) = fresh s"
  "fresh (s\<lparr>dc := (dc s)\<lparr>dc_gc := b2\<rparr>\<rparr>) = fresh s"
  "fresh (s\<lparr>dc := (dc s)\<lparr>dc_bg := b3\<rparr>\<rparr>) = fresh s"
  by (simp_all add: fresh_def)

lemma inv_present:
  "inv s \<Longrightarrow> inv (emit XSync (emit (XCopyArea a b c d w h x0 y0) s))"
  by (simp add: inv_emit)

lemma Let_after:
  assumes "R x" and "\<And>x'. R x' \<Longrightarrow> Q (after (f x'))"
  shows "Q (after (Let x f))"
  using assms by simp

lemma inv_setup_wc:
  assumes "fresh s"
  shows "inv (after (setup_wc e now s))"
proof (cases "XOpenDisplay e = 0")
  case True
  with assms show ?thesis by (simp add: setup_wc_def fresh_inv fresh_emit)
next
  case False
  show ?thesis
    unfolding setup_wc_def
    apply (simp only: False if_False)
    apply (rule Let_after [where Q = inv and R = fresh])
     apply (simp add: fresh_dc_fields assms)
    apply (rule after_bind [where Q = inv and P = fresh])
      apply (erule fresh_setup_xinerama)
     apply (rule Let_after [where Q = inv and R = fresh])
      apply (simp add: fresh_emit)
     apply (rule Let_after [where Q = inv and R = fresh])
      apply (simp add: fresh_emit fresh_dc_fields)
     apply (rule Let_after [where Q = inv and R = fresh])
      apply (simp add: fresh_emit fresh_dc_fields)
     apply (split option.split)
     apply (intro conjI impI allI)
      apply (simp add: fresh_inv fresh_emit)
     apply (rule after_bind [where Q = inv and P = fresh])
       apply (rule fresh_initline)
       apply (simp add: fresh_dc_fields)
      apply (rule after_bind [where Q = inv and P = fresh])
        apply (erule fresh_initline)
       apply (rule Let_after [where Q = inv and R = fresh])
        apply (simp add: fresh_def)
       apply (rule Let_after [where Q = inv and R = fresh])
        apply (simp add: fresh_def)
       apply (rule Let_after [where Q = inv and R = fresh])
        apply (simp add: fresh_emit)
       apply (rule Let_after [where Q = inv and R = fresh])
        apply (simp add: fresh_emit)
       apply (rule Let_after [where Q = inv and R = fresh])
        apply (simp add: fresh_emit)
       apply (rule after_bind_b [where Q = inv and P = inv])
         apply (rule inv_draw)
         apply (erule fresh_inv)
        apply (simp add: inv_present)
       apply assumption
      apply (erule fresh_inv)
     apply (erule fresh_inv)
    apply (erule fresh_inv)
    done
qed

lemma fresh_setup_fp:
  assumes "fresh s"
  shows "fresh (after (setup_fp e s))"
proof (cases "XOpenDisplay e = 0")
  case True
  with assms show ?thesis by (simp add: setup_fp_def fresh_emit)
next
  case False
  show ?thesis
    unfolding setup_fp_def
    apply (simp only: False if_False)
    apply (rule Let_after [where Q = fresh and R = fresh])
     apply (simp add: fresh_dc_fields assms)
    apply (rule Let_after [where Q = fresh and R = fresh])
     apply (simp add: fresh_emit fresh_dc_fields)
    apply (rule Let_after [where Q = fresh and R = fresh])
     apply (simp add: fresh_emit fresh_dc_fields)
    apply (split option.split)
    apply (intro conjI impI allI)
     apply (simp add: fresh_emit)
    apply (rule after_bind [where Q = fresh and P = fresh])
      apply (rule fresh_initline_fp)
      apply (simp add: fresh_dc_fields)
     apply (rule after_bind [where Q = fresh and P = fresh])
       apply (erule fresh_initline_fp)
      apply (rule Let_after [where Q = fresh and R = fresh])
       apply (simp add: fresh_def)
      apply (rule Let_after [where Q = fresh and R = fresh])
       apply (simp add: fresh_def)
      apply (rule Let_after [where Q = fresh and R = fresh])
       apply (simp add: fresh_emit)
      apply (rule Let_after [where Q = fresh and R = fresh])
       apply (simp add: fresh_emit)
      apply (simp add: fresh_emit)
     apply assumption
    apply assumption
    done
qed

lemma inv_main: "inv (after (main e a now ts))"
proof -
  have "inv (after (setup_wc e now (start a)))"
    by (rule inv_setup_wc) (rule fresh_start)
  then show ?thesis
    unfolding main_def
    apply (rule after_bind [where Q = inv and P = inv])
     apply (rule after_bind [where Q = inv and P = inv])
       apply (erule inv_main_loop)
      apply (simp add: inv_cleanup)
     apply assumption
    apply assumption
    done
qed

lemma inv_main_fp: "inv (after (main_fp e a now ts))"
proof -
  have "inv (after (setup_fp e (start a)))"
    by (intro fresh_inv fresh_setup_fp fresh_start)
  then show ?thesis
    unfolding main_fp_def
    apply (rule after_bind [where Q = inv and P = inv])
     apply (rule after_bind [where Q = inv and P = inv])
       apply (erule inv_draw_fp)
      apply (rule after_bind [where Q = inv and P = inv])
        apply (erule inv_main_loop_fp)
       apply (simp add: inv_cleanup)
      apply assumption
     apply assumption
    apply assumption
    done
qed


section \<open>Monitor selection and the geometry\<close>

lemma xinerama_exceeds:
  assumes "XineramaIsActive e" and "0 \<le> args_screen (args s)"
    and "int (length (XineramaQueryScreens e)) \<le> args_screen (args s)"
  shows "setup_xinerama e s =
     Inl (Exit 1, emit (Errx (Exceeds_screens (args_screen (args s))
                                (int (length (XineramaQueryScreens e))))) s)"
  using assms by (simp add: setup_xinerama_def Let_def)

lemma xinerama_selected:
  assumes "XineramaIsActive e" and "0 \<le> args_screen (args s)"
    and "args_screen (args s) < int (length (XineramaQueryScreens e))"
  shows "setup_xinerama e s =
     Inr (emit XFree
           (s\<lparr>dc := (dc s)\<lparr>
              dc_x := x_org (XineramaQueryScreens e ! nat (args_screen (args s))),
              dc_y := y_org (XineramaQueryScreens e ! nat (args_screen (args s))),
              dc_w := width (XineramaQueryScreens e ! nat (args_screen (args s))),
              dc_h := height_px (XineramaQueryScreens e ! nat (args_screen (args s)))\<rparr>\<rparr>))"
  using assms by (simp add: setup_xinerama_def Let_def info_at_def)

lemma placed_emit [simp]: "placed m (emit ev s) = placed m s"
  by (simp add: placed_def)

lemma placed_update [simp]: "placed m (update lp f s) = placed m s"
  by (simp add: placed_def)

lemma placed_repainted [simp]: "placed m (repainted e lp b s) = placed m s"
  by (simp add: placed_def)

lemma placed_initline: "placed m s \<Longrightarrow> placed m (after (initline e lp a s))"
  by (simp add: initline_def Let_def split: option.splits)

lemma placed_drawtext: "placed m s \<Longrightarrow> placed m (after_b (drawtext e lp tmp force s))"
  by (simp add: drawtext_eq Let_def)

lemma after_b_bind_b:
  assumes "P (after_b f)"
    and "\<And>d s'. P s' \<Longrightarrow> Q (after_b (g d s'))"
    and "\<And>s'. P s' \<Longrightarrow> Q s'"
  shows "Q (after_b (case f of Inl h \<Rightarrow> Inl h | Inr (d, s') \<Rightarrow> g d s'))"
proof (cases f)
  case (Inl a)
  with assms(1,3) show ?thesis by (cases a) simp
next
  case (Inr b)
  with assms(1,2) show ?thesis by (cases b) simp
qed

lemma placed_draw:
  assumes "placed m s"
  shows "placed m (after_b (draw e now s))"
proof (cases now)
  case None
  with assms show ?thesis by (simp add: draw_def)
next
  case (Some tmp)
  show ?thesis
    unfolding draw_def Some option.case
    apply (rule after_b_bind_b [where Q = "placed m" and P = "placed m"])
      apply (rule placed_drawtext [OF assms])
     apply (rule after_b_bind_b [where Q = "placed m" and P = "placed m"])
       apply (erule placed_drawtext)
      apply simp
     apply assumption
    apply assumption
    done
qed

lemma xinerama_inactive: "\<not> XineramaIsActive e \<Longrightarrow> setup_xinerama e s = Inr s"
  by (simp add: setup_xinerama_def)

lemma setup_wc_placed:
  assumes "XOpenDisplay e \<noteq> 0"
    and x: "placed m (after (setup_xinerama e
       (s\<lparr>dc := (dc s)\<lparr>dc_dpy := XOpenDisplay e, dc_screen := DefaultScreen e,
                     dc_x := 0, dc_y := 0, dc_w := DisplayWidth e, dc_h := DisplayHeight e,
                     dc_root := RootWindow e, dc_cmap := DefaultColormap e,
                     dc_vis := DefaultVisual e\<rparr>\<rparr>)))"
  shows "placed m (after (setup_wc e now s))"
  unfolding setup_wc_def
  apply (simp only: assms(1) if_False)
  apply (subst Let_def)
  apply (rule after_bind [where Q = "placed m" and P = "placed m"])
    apply (rule x)
   apply (rule Let_after [where Q = "placed m" and R = "placed m"])
    apply simp
   apply (rule Let_after [where Q = "placed m" and R = "placed m"])
    apply (simp add: placed_def)
   apply (rule Let_after [where Q = "placed m" and R = "placed m"])
    apply (simp add: placed_def)
   apply (split option.split)
   apply (intro conjI impI allI)
    apply simp
   apply (rule after_bind [where Q = "placed m" and P = "placed m"])
     apply (rule placed_initline)
     apply (simp add: placed_def)
    apply (rule after_bind [where Q = "placed m" and P = "placed m"])
      apply (erule placed_initline)
     apply (rule Let_after [where Q = "placed m" and R = "placed m"])
      apply (simp add: placed_def)
     apply (rule Let_after [where Q = "placed m" and R = "placed m"])
      apply (simp add: placed_def)
     apply (rule Let_after [where Q = "placed m" and R = "placed m"])
      apply simp
     apply (rule Let_after [where Q = "placed m" and R = "placed m"])
      apply simp
     apply (rule Let_after [where Q = "placed m" and R = "placed m"])
      apply simp
     apply (rule after_bind_b [where Q = "placed m" and P = "placed m"])
       apply (erule placed_draw)
      apply simp
     apply assumption
    apply assumption
   apply assumption
  apply assumption
  done

text \<open>The trace only grows.\<close>

lemma kept_initline: "ev \<in> set (trace s) \<Longrightarrow> ev \<in> set (trace (after (initline e lp a s)))"
  by (simp add: initline_def Let_def split: option.splits)

lemma kept_drawtext:
  "ev \<in> set (trace s) \<Longrightarrow> ev \<in> set (trace (after_b (drawtext e lp tmp force s)))"
  by (simp add: drawtext_eq Let_def)

lemma kept_draw:
  assumes "ev \<in> set (trace s)"
  shows "ev \<in> set (trace (after_b (draw e now s)))"
proof (cases now)
  case None
  with assms show ?thesis by (simp add: draw_def)
next
  case (Some tmp)
  show ?thesis
    unfolding draw_def Some option.case
    apply (rule after_b_bind_b [where Q = "\<lambda>s. ev \<in> set (trace s)"
          and P = "\<lambda>s. ev \<in> set (trace s)"])
      apply (rule kept_drawtext [OF assms])
     apply (rule after_b_bind_b [where Q = "\<lambda>s. ev \<in> set (trace s)"
          and P = "\<lambda>s. ev \<in> set (trace s)"])
       apply (erule kept_drawtext)
      apply simp
     apply assumption
    apply assumption
    done
qed



section \<open>Width policy of part_000\<close>

lemma warnings_append [simp]: "warnings (xs @ ys) = warnings xs @ warnings ys"
  by (induction xs rule: warnings.induct) simp_all

lemma measurements_append [simp]: "measurements (xs @ ys) = measurements xs @ measurements ys"
  by (induction xs rule: measurements.induct) simp_all

lemma formats_ok_length:
  "formats_ok e lp tmp s \<Longrightarrow>
     0 < length (formatted e lp tmp s) \<and> length (formatted e lp tmp s) < 64"
  by (auto simp add: formats_ok_def formatted_def strftime_def Let_def split: if_splits)

lemma c_int_small: "- 2147483648 \<le> k \<Longrightarrow> k < 2147483648 \<Longrightarrow> c_int k = k"
  by (simp add: c_int_def)

lemma fixed_product:
  assumes "0 < fw" and "fw \<le> 98302" and "0 < n" and "n < 64"
  shows "c_int (fw * int n) = fw * int n \<and> fw * int n \<noteq> 0"
proof -
  have u: "fw * int n \<le> 98302 * 63"
    using assms by (intro mult_mono) simp_all
  have l: "0 < fw * int n" using assms by simp
  have "c_int (fw * int n) = fw * int n"
    by (rule c_int_small) (use u l in linarith)+
  with assms show ?thesis by simp
qed

lemma initline_fp_ok:
  assumes "XftFontOpenName e (font a) = Some xf" and "XftColorAllocName e (color a) = Some c"
  shows "\<exists>s'. initline_fp e lp a s = Inr s' \<and>
     fwidth (deref lp s') =
       (if real_of_int (xf_max_advance_width xf)
             > real_of_int (uint (gi_width (extents e xf ''0''))) * 1.5
        then 0 else xf_max_advance_width xf) \<and>
     warnings (new_events s s') =
       (if real_of_int (xf_max_advance_width xf)
             > real_of_int (uint (gi_width (extents e xf ''0''))) * 1.5
           \<and> args_debug (args s) > 0
        then [Non_monospaced (font a)] else [])"
  using assms by (simp add: initline_fp_def Let_def textnw_fp_def new_events_def)

lemma kept_width:
  "\<not> real_of_int fw > real_of_int (uint (wz :: 16 word)) * 1.5 \<Longrightarrow> fw \<le> 98302"
proof -
  assume "\<not> real_of_int fw > real_of_int (uint wz) * 1.5"
  then have "2 * real_of_int fw \<le> 3 * real_of_int (uint wz)" by simp
  then have "2 * fw \<le> 3 * uint wz" by linarith
  moreover have "uint wz < 65536" using uint_lt2p [of wz] by simp
  ultimately show ?thesis by linarith
qed

lemma repaint_fp_fixed:
  assumes "c_int (fwidth (deref lp s) * int (length b)) \<noteq> 0"
  shows "measurements (repaint_fp e lp b s) = []"
    and "map (\<lambda>(d, x0, y0, w, h). w) (fills (repaint_fp e lp b s)) =
           [c_int (fwidth (deref lp s) * int (length b))]"
  using assms
  by (simp_all add: repaint_fp_def Let_def measure_fp_def width_fp_def slack_fp_def)

lemma repaint_fp_measured:
  assumes "fwidth (deref lp s) = 0"
  shows "measurements (repaint_fp e lp b s) = [b]"
    and "map (\<lambda>(d, x0, y0, w, h). w) (fills (repaint_fp e lp b s)) =
           [uint (gi_width (extents e (xfont (deref lp s)) b))
            + uint (gi_width (extents e (xfont (deref lp s)) b)) sdiv 8]"
  using assms
  by (simp_all add: repaint_fp_def Let_def measure_fp_def width_fp_def slack_fp_def c_int_def)


section \<open>Claims about the renderer\<close>

text \<open>
  C1. When the text formatted for the time equals the buffer of the line and
  \<open>force\<close> is false, \<^verbatim>\<open>drawtext\<close> returns false with the state, trace included,
  exactly as it was: no measurement, no drawing. The renderer of part_000,
  which has no force flag, returns with the state unchanged as well. Hence a
  call that follows a repaint with the same time and without force is a
  no-op, in both programs. (Formatting has succeeded here: \<^verbatim>\<open>strftime\<close>
  returned a non-zero count.)
\<close>

theorem drawtext_unchanged_noop:
  "(fst (strftime e 64 (fmt (arg (deref lp s))) tmp) \<noteq> 0 \<and>
    snd (strftime e 64 (fmt (arg (deref lp s))) tmp) = buf (deref lp s) \<longrightarrow>
      drawtext e lp tmp False s = Inr (False, s) \<and> drawtext_fp e lp tmp s = Inr s) \<and>
   (drawtext e lp tmp1 force s1 = Inr (True, s1') \<longrightarrow>
      drawtext e lp tmp1 False s1' = Inr (False, s1')) \<and>
   (drawtext_fp e lp tmp2 s2 = Inr s2' \<longrightarrow> drawtext_fp e lp tmp2 s2' = Inr s2')"
proof (intro conjI impI)
  assume "fst (strftime e 64 (fmt (arg (deref lp s))) tmp) \<noteq> 0 \<and>
    snd (strftime e 64 (fmt (arg (deref lp s))) tmp) = buf (deref lp s)"
  then show "drawtext e lp tmp False s = Inr (False, s)" "drawtext_fp e lp tmp s = Inr s"
    by (simp_all add: drawtext_eq drawtext_fp_eq Let_def)
next
  assume "drawtext e lp tmp1 force s1 = Inr (True, s1')"
  then show "drawtext e lp tmp1 False s1' = Inr (False, s1')"
    by (auto simp add: drawtext_eq Let_def split: if_splits)
next
  assume "drawtext_fp e lp tmp2 s2 = Inr s2'"
  then show "drawtext_fp e lp tmp2 s2' = Inr s2'"
    by (auto simp add: drawtext_fp_eq Let_def split: if_splits)
qed

text \<open>At minute 0 the first line of \<open>demo_world\<close> shows \<open>00\<close> already; at
  minute 1 it is repainted once and the next call does nothing.\<close>

theorem drawtext_unchanged_noop_witness:
  "drawtext demo_env Text1 (demo_tm 0) False demo_world = Inr (False, demo_world) \<and>
   drawtext_fp demo_env Text1 (demo_tm 0) demo_world = Inr demo_world \<and>
   drawtext demo_env Text1 (demo_tm 1) False demo_world =
     Inr (True, repainted demo_env Text1 ''01'' demo_world) \<and>
   drawtext demo_env Text1 (demo_tm 1) False (repainted demo_env Text1 ''01'' demo_world) =
     Inr (False, repainted demo_env Text1 ''01'' demo_world) \<and>
   drawtext_fp demo_env Text1 (demo_tm 1) demo_world =
     Inr (repainted_fp demo_env Text1 ''01'' demo_world) \<and>
   drawtext_fp demo_env Text1 (demo_tm 1) (repainted_fp demo_env Text1 ''01'' demo_world) =
     Inr (repainted_fp demo_env Text1 ''01'' demo_world)"
proof -
  have h: "fst (strftime demo_env 64 (fmt (arg (deref Text1 demo_world))) (demo_tm 0)) \<noteq> 0 \<and>
    snd (strftime demo_env 64 (fmt (arg (deref Text1 demo_world))) (demo_tm 0)) =
      buf (deref Text1 demo_world)"
    by simp
  have p: "drawtext demo_env Text1 (demo_tm 1) False demo_world =
      Inr (True, repainted demo_env Text1 ''01'' demo_world)"
    by (simp add: drawtext_eq)
  have q: "drawtext_fp demo_env Text1 (demo_tm 1) demo_world =
      Inr (repainted_fp demo_env Text1 ''01'' demo_world)"
    by (simp add: drawtext_fp_eq)
  from drawtext_unchanged_noop [of demo_env Text1 demo_world "demo_tm 0" "demo_tm 1" False
      demo_world "repainted demo_env Text1 ''01'' demo_world" "demo_tm 1" demo_world
      "repainted_fp demo_env Text1 ''01'' demo_world"] h p q
  show ?thesis by blast
qed


text \<open>
  C7. When the text of the format does not fit into the 64-byte buffer
  (64 bytes or more without the NUL), \<^verbatim>\<open>drawtext\<close> ends the process with
  exit status 1 after the single diagnostic of \<^verbatim>\<open>err\<close>; nothing is painted and
  no field of \<^verbatim>\<open>dc\<close>, \<^verbatim>\<open>args\<close> or \<^verbatim>\<open>running\<close> changes. Both programs.
\<close>

theorem drawtext_format_failure:
  assumes "63 < length (expand e (fmt (arg (deref lp s))) tmp)"
  shows "\<exists>s'. drawtext e lp tmp force s = Inl (Exit 1, s') \<and>
              drawtext_fp e lp tmp s = Inl (Exit 1, s') \<and>
              dc s' = dc s \<and> args s' = args s \<and> running s' = running s \<and>
              new_events s s' = [Err (Strftime_failed (fmt (arg (deref lp s))))]"
  using strftime_too_long[OF assms]
  by (simp add: drawtext_eq drawtext_fp_eq Let_def)

text \<open>A format of 64 letters for the second line.\<close>

theorem drawtext_format_failure_witness:
  "\<exists>s'. drawtext demo_env Text2 (demo_tm 0) False long_world = Inl (Exit 1, s') \<and>
        drawtext_fp demo_env Text2 (demo_tm 0) long_world = Inl (Exit 1, s') \<and>
        dc s' = dc long_world \<and> args s' = args long_world \<and>
        running s' = running long_world \<and>
        new_events long_world s' = [Err (Strftime_failed (replicate 64 CHR ''x''))]"
proof -
  have f: "fmt (arg (deref Text2 long_world)) = replicate 64 CHR ''x''"
    by (simp add: long_world_def)
  have ne: "replicate 64 CHR ''x'' \<noteq> ''%M''"
  proof
    assume "replicate 64 CHR ''x'' = ''%M''"
    then have "length (replicate 64 CHR ''x'') = length ''%M''" by (rule arg_cong)
    then show False by simp
  qed
  have "63 < length (expand demo_env (fmt (arg (deref Text2 long_world))) (demo_tm 0))"
    unfolding f using ne by (simp add: demo_env_def)
  from drawtext_format_failure [OF this, of False] show ?thesis
    unfolding f .
qed

section \<open>Claims about the signal handler\<close>

text \<open>
  C8, as stated, fails for part_000: its handler prints before it clears
  the flag. Here it is run on signal 2.
\<close>

theorem catch_fp_prints:
  "new_events demo_world (catch_fp 2 demo_world) = [Printf (Caught 2)]"
  by (simp add: catch_fp_def)

text \<open>
  C8, amended. The handler \<^verbatim>\<open>catch\<close> of wallclock.c changes nothing but
  \<open>running\<close>, which it sets to false. The handler of part_000 sets \<open>running\<close>
  to false, leaves \<^verbatim>\<open>dc\<close> and \<^verbatim>\<open>args\<close> alone, and writes one line,
  \<^verbatim>\<open>caught <signal>\<close>, to standard output.
\<close>

theorem signal_handler_effect:
  "catch sg s = s\<lparr>running := False\<rparr> \<and>
   running (catch_fp sg s) = False \<and>
   dc (catch_fp sg s) = dc s \<and>
   args (catch_fp sg s) = args s \<and>
   trace (catch_fp sg s) = trace s @ [Printf (Caught sg)]"
  by (simp add: catch_def catch_fp_def)


section \<open>Claims about a redraw\<close>

text \<open>
  C10. In wallclock.c, \<^verbatim>\<open>draw\<close> passes to \<^verbatim>\<open>drawtext\<close> for line 2 the value
  \<^verbatim>\<open>drawtext\<close> returned for line 1, which (called without force) is whether
  the text of line 1 changed. So line 2 is repainted with its formatted text
  and reported changed whenever line 1 changed or its own text changed, and
  \<^verbatim>\<open>draw\<close> returns false only when neither text changed. (Both formats
  succeed and \<^verbatim>\<open>localtime\<close> returned a time.)
\<close>

theorem draw_chains_force:
  assumes "formats_ok e Text1 tmp s" and "formats_ok e Text2 tmp s"
  shows "\<exists>d1 s1 d2 s2.
     drawtext e Text1 tmp False s = Inr (d1, s1) \<and>
     d1 = changed e Text1 tmp s \<and>
     drawtext e Text2 tmp d1 s1 = Inr (d2, s2) \<and>
     d2 = (changed e Text1 tmp s \<or> changed e Text2 tmp s) \<and>
     draw e (Some tmp) s = Inr (d2, emit XSync s2) \<and>
     map (\<lambda>(x0, y0, b). b) (painted Text2 (new_events s1 s2)) =
       (if changed e Text1 tmp s \<or> changed e Text2 tmp s
        then [formatted e Text2 tmp s] else [])"
  using assms by (simp add: draw_ok drawtext_ok)

text \<open>At minute 1 the first line of \<open>demo_world\<close> changes and the second
  does not.\<close>

theorem draw_chains_force_witness:
  "\<exists>d1 s1 d2 s2.
     drawtext demo_env Text1 (demo_tm 1) False demo_world = Inr (d1, s1) \<and>
     d1 = changed demo_env Text1 (demo_tm 1) demo_world \<and>
     drawtext demo_env Text2 (demo_tm 1) d1 s1 = Inr (d2, s2) \<and>
     d2 = (changed demo_env Text1 (demo_tm 1) demo_world \<or>
           changed demo_env Text2 (demo_tm 1) demo_world) \<and>
     draw demo_env (Some (demo_tm 1)) demo_world = Inr (d2, emit XSync s2) \<and>
     map (\<lambda>(x0, y0, b). b) (painted Text2 (new_events s1 s2)) =
       (if changed demo_env Text1 (demo_tm 1) demo_world \<or>
           changed demo_env Text2 (demo_tm 1) demo_world
        then [formatted demo_env Text2 (demo_tm 1) demo_world] else [])"
proof -
  have "formats_ok demo_env Text1 (demo_tm 1) demo_world"
    and "formats_ok demo_env Text2 (demo_tm 1) demo_world"
    by (simp_all add: formats_ok_def)
  then show ?thesis by (rule draw_chains_force)
qed

text \<open>
  C2, as stated, fails in wallclock.c: at minute 1 the text of line 2 is
  the text it holds, and still its band is cleared and its text drawn again,
  because line 1 changed.
\<close>

theorem unchanged_line_repainted:
  "changed demo_env Text1 (demo_tm 1) demo_world \<and>
   \<not> changed demo_env Text2 (demo_tm 1) demo_world \<and>
   fills (new_events demo_world (after_b (draw demo_env (Some (demo_tm 1)) demo_world))) =
     [(9, 0, 440, 1920, 100), (9, 0, 540, 1920, 100)] \<and>
   map (\<lambda>(x0, y0, b). b)
     (painted Text2
       (new_events demo_world (after_b (draw demo_env (Some (demo_tm 1)) demo_world)))) =
     [''Monday'']"
proof -
  have f: "formats_ok demo_env Text1 (demo_tm 1) demo_world"
    "formats_ok demo_env Text2 (demo_tm 1) demo_world"
    by (simp_all add: formats_ok_def)
  have c: "changed demo_env Text1 (demo_tm 1) demo_world"
    "\<not> changed demo_env Text2 (demo_tm 1) demo_world"
    by (simp_all add: changed_def formatted_def)
  have g: "dc_da (dc demo_world) = 9" "dc_x (dc demo_world) = 0" "dc_w (dc demo_world) = 1920"
    "y (dc_text1 (dc demo_world)) = 440" "y (dc_text2 (dc demo_world)) = 540"
    "height (dc_text1 (dc demo_world)) = 100" "height (dc_text2 (dc demo_world)) = 100"
    by (simp_all add: demo_defs)
  show ?thesis
    using c g by (simp add: draw_ok [OF f] formatted_def)
qed

text \<open>
  C2, amended. A redraw of wallclock.c clears and draws line 1 exactly when
  its formatted text differs from the text it holds, and line 2 exactly when
  the text of line 1 or its own text differs; each repaint clears the one
  rectangle with origin \<open>(dc.x, line.y)\<close>, width \<open>dc.w\<close> and the height of the
  line, and draws the text once, centred, on the baseline \<open>line.y + ascent\<close>.
  A redraw of part_000 clears and draws a line exactly when its own text
  differs; the rectangle it clears has the \<open>y\<close> and the height of the line,
  and the text is drawn once on the baseline \<open>line.y + ascent\<close>. No other
  rectangle is cleared and no other text drawn.
\<close>

theorem redraw_repaints_changed_or_forced:
  assumes "formats_ok e Text1 tmp s" and "formats_ok e Text2 tmp s"
  shows "\<exists>d s' s''.
     draw e (Some tmp) s = Inr (d, s') \<and>
     fills (new_events s s') =
       (if changed e Text1 tmp s
        then [(dc_da (dc s), dc_x (dc s), y (dc_text1 (dc s)), dc_w (dc s),
               height (dc_text1 (dc s)))]
        else []) @
       (if changed e Text1 tmp s \<or> changed e Text2 tmp s
        then [(dc_da (dc s), dc_x (dc s), y (dc_text2 (dc s)), dc_w (dc s),
               height (dc_text2 (dc s)))]
        else []) \<and>
     painted Text1 (new_events s s') =
       (if changed e Text1 tmp s
        then [((dc_w (dc s) - measured e Text1 (formatted e Text1 tmp s) s) sdiv 2,
               y (dc_text1 (dc s)) + ascent (dc_text1 (dc s)), formatted e Text1 tmp s)]
        else []) \<and>
     painted Text2 (new_events s s') =
       (if changed e Text1 tmp s \<or> changed e Text2 tmp s
        then [((dc_w (dc s) - measured e Text2 (formatted e Text2 tmp s) s) sdiv 2,
               y (dc_text2 (dc s)) + ascent (dc_text2 (dc s)), formatted e Text2 tmp s)]
        else []) \<and>
     draw_fp e True (Some tmp) s = Inr s'' \<and>
     map (\<lambda>(d, x0, y0, w, h). (d, y0, h)) (fills (new_events s s'')) =
       (if changed e Text1 tmp s
        then [(dc_da (dc s), y (dc_text1 (dc s)), height (dc_text1 (dc s)))] else []) @
       (if changed e Text2 tmp s
        then [(dc_da (dc s), y (dc_text2 (dc s)), height (dc_text2 (dc s)))] else []) \<and>
     map (\<lambda>(x0, y0, b). (y0, b)) (painted Text1 (new_events s s'')) =
       (if changed e Text1 tmp s
        then [(y (dc_text1 (dc s)) + ascent (dc_text1 (dc s)), formatted e Text1 tmp s)]
        else []) \<and>
     map (\<lambda>(x0, y0, b). (y0, b)) (painted Text2 (new_events s s'')) =
       (if changed e Text2 tmp s
        then [(y (dc_text2 (dc s)) + ascent (dc_text2 (dc s)), formatted e Text2 tmp s)]
        else [])"
  by (simp add: draw_ok [OF assms] draw_fp_ok [OF assms] measured_def)

theorem redraw_repaints_changed_or_forced_witness:
  "\<exists>d s' s''.
     draw demo_env (Some (demo_tm 1)) demo_world = Inr (d, s') \<and>
     fills (new_events demo_world s') =
       (if changed demo_env Text1 (demo_tm 1) demo_world
        then [(dc_da (dc demo_world), dc_x (dc demo_world), y (dc_text1 (dc demo_world)),
               dc_w (dc demo_world), height (dc_text1 (dc demo_world)))]
        else []) @
       (if changed demo_env Text1 (demo_tm 1) demo_world \<or>
           changed demo_env Text2 (demo_tm 1) demo_world
        then [(dc_da (dc demo_world), dc_x (dc demo_world), y (dc_text2 (dc demo_world)),
               dc_w (dc demo_world), height (dc_text2 (dc demo_world)))]
        else []) \<and>
     draw_fp demo_env True (Some (demo_tm 1)) demo_world = Inr s'' \<and>
     map (\<lambda>(d, x0, y0, w, h). (d, y0, h)) (fills (new_events demo_world s'')) =
       (if changed demo_env Text1 (demo_tm 1) demo_world
        then [(dc_da (dc demo_world), y (dc_text1 (dc demo_world)),
               height (dc_text1 (dc demo_world)))] else []) @
       (if changed demo_env Text2 (demo_tm 1) demo_world
        then [(dc_da (dc demo_world), y (dc_text2 (dc demo_world)),
               height (dc_text2 (dc demo_world)))] else [])"
proof -
  have "formats_ok demo_env Text1 (demo_tm 1) demo_world"
    and "formats_ok demo_env Text2 (demo_tm 1) demo_world"
    by (simp_all add: formats_ok_def)
  from redraw_repaints_changed_or_forced [OF this] show ?thesis by blast
qed

section \<open>Claims about the loop\<close>

text \<open>
  C3, as stated, fails in part_000: on a timeout with both texts unchanged
  and no activity on the connection, the pixmap is copied to the root window
  and the connection synchronised all the same.
\<close>

theorem copy_without_change:
  "\<not> changed demo_env Text1 (demo_tm 0) demo_world \<and>
   \<not> changed demo_env Text2 (demo_tm 0) demo_world \<and>
   t_poll (demo_tick 0 0) = 0 \<and>
   new_events demo_world (after (iteration_fp demo_env (demo_tick 0 0) demo_world)) =
     [XCopyArea 9 7 0 0 1920 1080 0 0, XSync]"
proof -
  have f: "formats_ok demo_env Text1 (demo_tm 0) demo_world"
    "formats_ok demo_env Text2 (demo_tm 0) demo_world"
    by (simp_all add: formats_ok_def)
  have c: "\<not> changed demo_env Text1 (demo_tm 0) demo_world"
    "\<not> changed demo_env Text2 (demo_tm 0) demo_world"
    by (simp_all add: changed_def formatted_def)
  have g: "dc_da (dc demo_world) = 9" "dc_root (dc demo_world) = 7"
    "dc_w (dc demo_world) = 1920" "dc_h (dc demo_world) = 1080"
    by (simp_all add: demo_defs)
  show ?thesis
    using c g by (simp add: iteration_fp_def demo_tick_def draw_fp_ok [OF f])
qed

text \<open>
  C3, amended. In wallclock.c a pass of the loop copies the pixmap to the
  root window and then synchronises, as its last two requests and once,
  exactly when \<^verbatim>\<open>poll\<close> reported activity, or timed out and the text of a line
  changed; otherwise it copies nothing. In part_000 a pass does so exactly
  when \<^verbatim>\<open>poll\<close> did not fail, whether or not a text changed. (Both formats
  succeed and \<^verbatim>\<open>localtime\<close> returned a time.)
\<close>

theorem present_after_tick:
  assumes "formats_ok e Text1 tmp s" and "formats_ok e Text2 tmp s"
    and "t_now t = Some tmp"
  shows "\<exists>s' s''.
     iteration e t s = Inr s' \<and>
     (if t_poll t \<noteq> - 1 \<and>
         (t_poll t = 0 \<longrightarrow> changed e Text1 tmp s \<or> changed e Text2 tmp s)
      then \<exists>evs. new_events s s' =
             evs @ [XCopyArea (dc_da (dc s)) (dc_root (dc s)) 0 0 (dc_w (dc s)) (dc_h (dc s))
                      (dc_x (dc s)) (dc_y (dc s)), XSync] \<and>
             copies evs = []
      else copies (new_events s s') = []) \<and>
     iteration_fp e t s = Inr s'' \<and>
     (if t_poll t \<noteq> - 1
      then \<exists>evs. new_events s s'' =
             evs @ [XCopyArea (dc_da (dc s)) (dc_root (dc s)) 0 0 (dc_w (dc s)) (dc_h (dc s))
                      0 0, XSync] \<and>
             copies evs = []
      else copies (new_events s s'') = [])"
proof -
  let ?s0 = "foldl (\<lambda>s sg. catch sg s) s (t_signals t)"
  have f: "formats_ok e Text1 tmp ?s0" "formats_ok e Text2 tmp ?s0"
    using assms by (simp_all add: signals_catch)
  let ?s1 = "foldl (\<lambda>s sg. catch_fp sg s) s (t_signals t)"
  have f1: "formats_ok e Text1 tmp ?s1" "formats_ok e Text2 tmp ?s1"
    using assms by (simp_all add: signals_catch_fp)
  have wc: "\<exists>s'. iteration e t s = Inr s' \<and>
     (if t_poll t \<noteq> - 1 \<and>
         (t_poll t = 0 \<longrightarrow> changed e Text1 tmp s \<or> changed e Text2 tmp s)
      then \<exists>evs. new_events s s' =
             evs @ [XCopyArea (dc_da (dc s)) (dc_root (dc s)) 0 0 (dc_w (dc s)) (dc_h (dc s))
                      (dc_x (dc s)) (dc_y (dc s)), XSync] \<and>
             copies evs = []
      else copies (new_events s s') = [])"
    using assms(3)
    by (simp add: iteration_def Let_def draw_ok [OF f]) (simp add: signals_catch)
  have fp: "\<exists>s''. iteration_fp e t s = Inr s'' \<and>
     (if t_poll t \<noteq> - 1
      then \<exists>evs. new_events s s'' =
             evs @ [XCopyArea (dc_da (dc s)) (dc_root (dc s)) 0 0 (dc_w (dc s)) (dc_h (dc s))
                      0 0, XSync] \<and>
             copies evs = []
      else copies (new_events s s'') = [])"
    using assms(3)
    by (simp add: iteration_fp_def Let_def draw_fp_ok [OF f1] draw_fp_present)
       (simp add: signals_catch_fp)
  from wc fp show ?thesis by blast
qed

text \<open>A timeout at minute 1 in \<open>demo_world\<close>.\<close>

theorem present_after_tick_witness:
  "\<exists>s' s''.
     iteration demo_env (demo_tick 0 1) demo_world = Inr s' \<and>
     (if t_poll (demo_tick 0 1) \<noteq> - 1 \<and>
         (t_poll (demo_tick 0 1) = 0 \<longrightarrow>
            changed demo_env Text1 (demo_tm 1) demo_world \<or>
            changed demo_env Text2 (demo_tm 1) demo_world)
      then \<exists>evs. new_events demo_world s' =
             evs @ [XCopyArea (dc_da (dc demo_world)) (dc_root (dc demo_world)) 0 0
                      (dc_w (dc demo_world)) (dc_h (dc demo_world))
                      (dc_x (dc demo_world)) (dc_y (dc demo_world)), XSync] \<and>
             copies evs = []
      else copies (new_events demo_world s') = []) \<and>
     iteration_fp demo_env (demo_tick 0 1) demo_world = Inr s'' \<and>
     (if t_poll (demo_tick 0 1) \<noteq> - 1
      then \<exists>evs. new_events demo_world s'' =
             evs @ [XCopyArea (dc_da (dc demo_world)) (dc_root (dc demo_world)) 0 0
                      (dc_w (dc demo_world)) (dc_h (dc demo_world)) 0 0, XSync] \<and>
             copies evs = []
      else copies (new_events demo_world s'') = [])"
proof -
  have "formats_ok demo_env Text1 (demo_tm 1) demo_world"
    and "formats_ok demo_env Text2 (demo_tm 1) demo_world"
    and "t_now (demo_tick 0 1) = Some (demo_tm 1)"
    by (simp_all add: formats_ok_def demo_tick_def)
  then show ?thesis by (rule present_after_tick)
qed

section \<open>Claims about whole runs\<close>

text \<open>
  C4. In every state a run of either program reaches (after start-up and
  any number of passes of the loop, at an exit or at the loop head), the
  buffer of each line holds the string last painted for that line, and is
  empty when none has been painted. A paint is a call of
  \<^verbatim>\<open>XftDrawStringUtf8\<close>; the statement covers every prefix of every run, so
  each paint is followed by the update of the buffer and nothing else
  changes it.
\<close>

theorem buffer_is_last_painted:
  "buf (deref lp (after (main e a now ts))) =
     last_painted lp (trace (after (main e a now ts))) \<and>
   buf (deref lp (after (main_fp e a now ts))) =
     last_painted lp (trace (after (main_fp e a now ts)))"
  using inv_main [of e a now ts] inv_main_fp [of e a now ts]
  by (cases lp) (simp_all add: inv_def inv_buf_def)

text \<open>A run of start-up and one timeout.\<close>

theorem buffer_is_last_painted_witness:
  "buf (deref Text1 (after (main demo_env demo_args (Some (demo_tm 0)) [demo_tick 0 1]))) =
     last_painted Text1
       (trace (after (main demo_env demo_args (Some (demo_tm 0)) [demo_tick 0 1]))) \<and>
   buf (deref Text1 (after (main_fp demo_env demo_args (Some (demo_tm 0)) [demo_tick 0 1]))) =
     last_painted Text1
       (trace (after (main_fp demo_env demo_args (Some (demo_tm 0)) [demo_tick 0 1])))"
  by (rule buffer_is_last_painted)


text \<open>
  C6. In every state a run of either program reaches, each line has at most
  one excessive-width diagnostic. And whenever \<^verbatim>\<open>drawtext\<close> repaints (the
  text changed or force is set), whatever the width it computed, it draws
  the whole formatted string on the baseline of the line.
\<close>

theorem excessive_width_warned_once:
  "excessive lp (trace (after (main e a now ts))) \<le> 1 \<and>
   excessive lp (trace (after (main_fp e a now ts))) \<le> 1 \<and>
   (formats_ok e lp tmp s \<and> (force \<or> changed e lp tmp s) \<longrightarrow>
      (\<exists>s'. drawtext e lp tmp force s = Inr (True, s') \<and>
            painted lp (new_events s s') =
              [((dc_w (dc s) - measured e lp (formatted e lp tmp s) s) sdiv 2,
                y (deref lp s) + ascent (deref lp s), formatted e lp tmp s)])) \<and>
   (formats_ok e lp tmp s \<and> changed e lp tmp s \<longrightarrow>
      (\<exists>s' x0. drawtext_fp e lp tmp s = Inr s' \<and>
            painted lp (new_events s s') =
              [(x0, y (deref lp s) + ascent (deref lp s), formatted e lp tmp s)]))"
proof -
  have 1: "excessive lp (trace (after (main e a now ts))) \<le> 1"
    using inv_main [of e a now ts]
    by (cases lp) (simp_all add: inv_def inv_warn_def split: if_splits)
  have 2: "excessive lp (trace (after (main_fp e a now ts))) \<le> 1"
    using inv_main_fp [of e a now ts]
    by (cases lp) (simp_all add: inv_def inv_warn_def split: if_splits)
  have 3: "formats_ok e lp tmp s \<and> (force \<or> changed e lp tmp s) \<longrightarrow>
      (\<exists>s'. drawtext e lp tmp force s = Inr (True, s') \<and>
            painted lp (new_events s s') =
              [((dc_w (dc s) - measured e lp (formatted e lp tmp s) s) sdiv 2,
                y (deref lp s) + ascent (deref lp s), formatted e lp tmp s)])"
    by (simp add: drawtext_ok measured_def)
  have 4: "formats_ok e lp tmp s \<and> changed e lp tmp s \<longrightarrow>
      (\<exists>s' x0. drawtext_fp e lp tmp s = Inr s' \<and>
            painted lp (new_events s s') =
              [(x0, y (deref lp s) + ascent (deref lp s), formatted e lp tmp s)])"
    by (simp add: drawtext_fp_ok)
  from 1 2 3 4 show ?thesis by blast
qed

text \<open>On a surface 100 wide the text \<open>01\<close>, 140 wide, is drawn in full.\<close>

theorem excessive_width_warned_once_witness:
  "dc_w (dc narrow_world) < measured demo_env Text1 ''01'' narrow_world \<and>
   formatted demo_env Text1 (demo_tm 1) narrow_world = ''01'' \<and>
   (\<exists>s'. drawtext demo_env Text1 (demo_tm 1) False narrow_world = Inr (True, s') \<and>
         painted Text1 (new_events narrow_world s') =
           [((dc_w (dc narrow_world) -
                measured demo_env Text1 (formatted demo_env Text1 (demo_tm 1) narrow_world)
                  narrow_world) sdiv 2,
             y (deref Text1 narrow_world) + ascent (deref Text1 narrow_world),
             formatted demo_env Text1 (demo_tm 1) narrow_world)]) \<and>
   (\<exists>s' x0. drawtext_fp demo_env Text1 (demo_tm 1) narrow_world = Inr s' \<and>
         painted Text1 (new_events narrow_world s') =
           [(x0, y (deref Text1 narrow_world) + ascent (deref Text1 narrow_world),
             formatted demo_env Text1 (demo_tm 1) narrow_world)])"
proof -
  have t: "dc_text1 (dc narrow_world) = demo_line1"
    by (simp add: narrow_world_def demo_world_def)
  have s: "strftime demo_env 64 (fmt (arg demo_line1)) (demo_tm 1) = (2, ''01'')"
    by (simp add: strftime_def demo_defs)
  have w: "dc_w (dc narrow_world) < measured demo_env Text1 ''01'' narrow_world"
    by (simp add: measured_def t) (simp add: demo_defs)
  have f: "formatted demo_env Text1 (demo_tm 1) narrow_world = ''01''"
    by (simp add: formatted_def t s)
  have h: "formats_ok demo_env Text1 (demo_tm 1) narrow_world \<and>
      (False \<or> changed demo_env Text1 (demo_tm 1) narrow_world)"
    "formats_ok demo_env Text1 (demo_tm 1) narrow_world \<and>
      changed demo_env Text1 (demo_tm 1) narrow_world"
    by (simp_all add: formats_ok_def changed_def formatted_def t s) (simp_all add: demo_defs)
  from excessive_width_warned_once [of Text1 demo_env demo_args None "[]" "demo_tm 1"
      narrow_world False] h w f
  show ?thesis by blast
qed


section \<open>Claims about start-up\<close>

text \<open>
  C9, as stated, fails when Xinerama is not active: the block that checks
  the index is then skipped, so with index 2 requested and no monitor
  reported \<^verbatim>\<open>setup\<close> goes on and creates the pixmap, of the size of the whole
  display.
\<close>

theorem index_ignored_without_xinerama:
  "\<not> XineramaIsActive plain_env \<and>
   args_screen (args (start (demo_args\<lparr>args_screen := 2\<rparr>))) = 2 \<and>
   XCreatePixmap 9 3200 1080 \<in>
     set (trace (after (setup_wc plain_env (Some (demo_tm 0))
                         (start (demo_args\<lparr>args_screen := 2\<rparr>)))))"
proof -
  let ?K = "\<lambda>s. XCreatePixmap 9 3200 1080 \<in> set (trace s)"
  let ?G = "\<lambda>s. dc_w (dc s) = 3200 \<and> dc_h (dc s) = 1080"
  have o: "XOpenDisplay plain_env \<noteq> 0" and i: "\<not> XineramaIsActive plain_env"
    and p: "new_pixmap plain_env = 9"
    and g: "DisplayWidth plain_env = 3200" "DisplayHeight plain_env = 1080"
    by (simp_all add: plain_env_def demo_env_def)
  have "?K (after (setup_wc plain_env (Some (demo_tm 0))
                         (start (demo_args\<lparr>args_screen := 2\<rparr>))))"
    unfolding setup_wc_def
    apply (simp only: o if_False)
    apply (rule Let_after [where Q = ?K and R = ?G])
     apply (simp add: g)
    apply (simp only: xinerama_inactive [OF i] sum.case)
    apply (rule Let_after [where Q = ?K and R = ?G])
     apply simp
    apply (rule Let_after [where Q = ?K and R = ?K])
     apply (simp add: p)
    apply (rule Let_after [where Q = ?K and R = ?K])
     apply simp
    apply (split option.split)
    apply (intro conjI impI allI)
     apply simp
    apply (rule after_bind [where Q = ?K and P = ?K])
      apply (rule kept_initline)
      apply simp
     apply (rule after_bind [where Q = ?K and P = ?K])
       apply (erule kept_initline)
      apply (rule Let_after [where Q = ?K and R = ?K])
       apply simp
      apply (rule Let_after [where Q = ?K and R = ?K])
       apply simp
      apply (rule Let_after [where Q = ?K and R = ?K])
       apply simp
      apply (rule Let_after [where Q = ?K and R = ?K])
       apply simp
      apply (rule Let_after [where Q = ?K and R = ?K])
       apply simp
      apply (rule after_bind_b [where Q = ?K and P = ?K])
        apply (erule kept_draw)
       apply simp
      apply assumption
     apply assumption
    apply assumption
    done
  with i show ?thesis by (simp add: start_def)
qed

text \<open>
  C9, amended. Once the display is open: when Xinerama is active and the
  requested index is at least the number of monitors, \<^verbatim>\<open>setup\<close> exits with
  status 1 and its only action is the diagnostic (no pixmap has been
  created); when Xinerama is active and the index is from 0 up to the number
  of monitors, the origin and extent of that monitor are the surface
  geometry when \<^verbatim>\<open>setup\<close> ends; when Xinerama is not active the index is not
  looked at and the geometry is the whole display at the origin. (Nothing is
  said about a negative index other than -1.)
\<close>

theorem monitor_selection:
  assumes "XOpenDisplay e \<noteq> 0"
  shows "(XineramaIsActive e \<and>
          int (length (XineramaQueryScreens e)) \<le> args_screen (args s) \<longrightarrow>
           (\<exists>s'. setup_wc e now s = Inl (Exit 1, s') \<and>
                 new_events s s' =
                   [Errx (Exceeds_screens (args_screen (args s))
                            (int (length (XineramaQueryScreens e))))])) \<and>
         (XineramaIsActive e \<and> 0 \<le> args_screen (args s) \<and>
          args_screen (args s) < int (length (XineramaQueryScreens e)) \<longrightarrow>
           placed (XineramaQueryScreens e ! nat (args_screen (args s)))
             (after (setup_wc e now s))) \<and>
         (\<not> XineramaIsActive e \<longrightarrow>
           placed \<lparr>x_org = 0, y_org = 0, width = DisplayWidth e, height_px = DisplayHeight e\<rparr>
             (after (setup_wc e now s)))"
proof (intro conjI impI)
  let ?s0 = "s\<lparr>dc := (dc s)\<lparr>dc_dpy := XOpenDisplay e, dc_screen := DefaultScreen e,
                     dc_x := 0, dc_y := 0, dc_w := DisplayWidth e, dc_h := DisplayHeight e,
                     dc_root := RootWindow e, dc_cmap := DefaultColormap e,
                     dc_vis := DefaultVisual e\<rparr>\<rparr>"
  {
    assume big: "XineramaIsActive e \<and>
      int (length (XineramaQueryScreens e)) \<le> args_screen (args s)"
    then have "0 \<le> args_screen (args s)" by simp
    with big have x: "setup_xinerama e ?s0 =
       Inl (Exit 1, emit (Errx (Exceeds_screens (args_screen (args s))
                                  (int (length (XineramaQueryScreens e))))) ?s0)"
      using xinerama_exceeds [of e ?s0] by simp
    have "setup_wc e now s =
       Inl (Exit 1, emit (Errx (Exceeds_screens (args_screen (args s))
                                  (int (length (XineramaQueryScreens e))))) ?s0)"
      unfolding setup_wc_def
      apply (simp only: assms(1) if_False)
      apply (subst Let_def)
      apply (simp only: x sum.case)
      done
    then show "\<exists>s'. setup_wc e now s = Inl (Exit 1, s') \<and>
                 new_events s s' =
                   [Errx (Exceeds_screens (args_screen (args s))
                            (int (length (XineramaQueryScreens e))))]"
      by simp
  }
  {
    assume small: "XineramaIsActive e \<and> 0 \<le> args_screen (args s) \<and>
      args_screen (args s) < int (length (XineramaQueryScreens e))"
    let ?m = "XineramaQueryScreens e ! nat (args_screen (args s))"
    have "placed ?m (after (setup_xinerama e ?s0))"
      using xinerama_selected [of e ?s0] small by (simp add: placed_def)
    with assms show "placed ?m (after (setup_wc e now s))"
      by (rule setup_wc_placed)
  }
  {
    assume "\<not> XineramaIsActive e"
    then have "placed \<lparr>x_org = 0, y_org = 0, width = DisplayWidth e,
        height_px = DisplayHeight e\<rparr> (after (setup_xinerama e ?s0))"
      by (simp add: xinerama_inactive placed_def)
    with assms show "placed \<lparr>x_org = 0, y_org = 0, width = DisplayWidth e,
        height_px = DisplayHeight e\<rparr> (after (setup_wc e now s))"
      by (rule setup_wc_placed)
  }
qed

text \<open>Index 2 and index 1 with the two monitors of \<open>demo_env\<close>, and index 1
  without Xinerama.\<close>

theorem monitor_selection_witness:
  "(\<exists>s'. setup_wc demo_env None (start (demo_args\<lparr>args_screen := 2\<rparr>)) = Inl (Exit 1, s') \<and>
     new_events (start (demo_args\<lparr>args_screen := 2\<rparr>)) s' = [Errx (Exceeds_screens 2 2)]) \<and>
   placed \<lparr>x_org = 1920, y_org = 0, width = 1280, height_px = 1024\<rparr>
     (after (setup_wc demo_env None (start (demo_args\<lparr>args_screen := 1\<rparr>)))) \<and>
   placed \<lparr>x_org = 0, y_org = 0, width = 3200, height_px = 1080\<rparr>
     (after (setup_wc plain_env None (start (demo_args\<lparr>args_screen := 1\<rparr>))))"
proof -
  have a: "XOpenDisplay demo_env \<noteq> 0" "XOpenDisplay plain_env \<noteq> 0"
    and x: "XineramaIsActive demo_env" "\<not> XineramaIsActive plain_env"
    by (simp_all add: demo_env_def plain_env_def)
  have n: "int (length (XineramaQueryScreens demo_env)) = 2"
    by (simp add: demo_env_def)
  have s2: "args_screen (args (start (demo_args\<lparr>args_screen := 2\<rparr>))) = 2"
    and s1: "args_screen (args (start (demo_args\<lparr>args_screen := 1\<rparr>))) = 1"
    by (simp_all add: start_def)
  have m: "XineramaQueryScreens demo_env ! nat 1 =
      \<lparr>x_org = 1920, y_org = 0, width = 1280, height_px = 1024\<rparr>"
    by (simp add: demo_env_def)
  have d: "DisplayWidth plain_env = 3200" "DisplayHeight plain_env = 1080"
    by (simp_all add: demo_env_def plain_env_def)
  from monitor_selection [OF a(1), of "start (demo_args\<lparr>args_screen := 2\<rparr>)" None] x(1)
  have 1: "\<exists>s'. setup_wc demo_env None (start (demo_args\<lparr>args_screen := 2\<rparr>)) = Inl (Exit 1, s') \<and>
     new_events (start (demo_args\<lparr>args_screen := 2\<rparr>)) s' = [Errx (Exceeds_screens 2 2)]"
    unfolding n s2 by simp
  from monitor_selection [OF a(1), of "start (demo_args\<lparr>args_screen := 1\<rparr>)" None] x(1)
  have 2: "placed \<lparr>x_org = 1920, y_org = 0, width = 1280, height_px = 1024\<rparr>
     (after (setup_wc demo_env None (start (demo_args\<lparr>args_screen := 1\<rparr>))))"
    unfolding n s1 m by simp
  from monitor_selection [OF a(2), of "start (demo_args\<lparr>args_screen := 1\<rparr>)" None] x(2)
  have 3: "placed \<lparr>x_org = 0, y_org = 0, width = 3200, height_px = 1080\<rparr>
     (after (setup_wc plain_env None (start (demo_args\<lparr>args_screen := 1\<rparr>))))"
    unfolding d by simp
  from 1 2 3 show ?thesis by blast
qed


section \<open>Claims about the width policy of part_000\<close>

text \<open>
  C5, as stated, fails at debug level 0 (\<^verbatim>\<open>-q\<close>): for the font \<open>wide\<close>, whose
  maximum advance 120 is more than one and a half times the width 70 of
  \<open>0\<close>, \<^verbatim>\<open>initline\<close> selects the measured path (\<open>fwidth = 0\<close>) and emits no
  warning at all.
\<close>

theorem quiet_non_monospaced:
  "args_debug (args quiet_start) = 0 \<and>
   real_of_int (xf_max_advance_width (demo_font ''wide''))
     > real_of_int (uint (gi_width (extents demo_env (demo_font ''wide'') ''0''))) * 1.5 \<and>
   fwidth (deref Text1 (after (initline_fp demo_env Text1 wide_arg quiet_start))) = 0 \<and>
   warnings (new_events quiet_start
              (after (initline_fp demo_env Text1 wide_arg quiet_start))) = []"
proof -
  have f: "XftFontOpenName demo_env (font wide_arg) = Some (demo_font ''wide'')"
    and c: "XftColorAllocName demo_env (color wide_arg) = Some 5"
    by (simp_all add: demo_env_def wide_arg_def)
  have d: "args_debug (args quiet_start) = 0"
    by (simp add: quiet_start_def start_def demo_args_def)
  have w: "real_of_int (xf_max_advance_width (demo_font ''wide''))
     > real_of_int (uint (gi_width (extents demo_env (demo_font ''wide'') ''0''))) * 1.5"
    by (simp add: demo_env_def demo_font_def)
  from initline_fp_ok [OF f c, of Text1 quiet_start] d w show ?thesis
    by auto
qed

text \<open>
  C5, amended. \<^verbatim>\<open>initline\<close> of part_000 keeps \<open>fwidth\<close> = the maximum advance
  width exactly when that is at most 1.5 times the measured width of \<open>0\<close>
  (it is then at most 98302), and sets \<open>fwidth = 0\<close> otherwise; in that case
  it emits the non-monospaced warning once if the debug level is above 0 and
  not at all otherwise. \<^verbatim>\<open>drawtext\<close>, when it repaints with a positive
  \<open>fwidth\<close> a text in which every character is one byte, measures nothing
  and clears a rectangle of width \<open>fwidth\<close> times the number of characters
  of the text, with no slack; with \<open>fwidth = 0\<close> it measures the text once
  and clears the measured width plus one eighth of it. (Nothing is said
  about the fixed-pitch width of a text with multi-byte characters.)
\<close>

theorem fixed_pitch_policy:
  "(XftFontOpenName e (font a) = Some xf \<and> XftColorAllocName e (color a) = Some c \<longrightarrow>
      (\<exists>s'. initline_fp e lp a si = Inr s' \<and>
         fwidth (deref lp s') =
           (if real_of_int (xf_max_advance_width xf)
                 \<le> real_of_int (uint (gi_width (extents e xf ''0''))) * 1.5
            then xf_max_advance_width xf else 0) \<and>
         fwidth (deref lp s') \<le> 98302 \<and>
         warnings (new_events si s') =
           (if real_of_int (xf_max_advance_width xf)
                 \<le> real_of_int (uint (gi_width (extents e xf ''0''))) * 1.5
               \<or> args_debug (args si) \<le> 0
            then [] else [Non_monospaced (font a)]))) \<and>
   (formats_ok e lp tmp s \<and> changed e lp tmp s \<and>
    0 < fwidth (deref lp s) \<and> fwidth (deref lp s) \<le> 98302 \<and>
    char_count (formatted e lp tmp s) = length (formatted e lp tmp s) \<longrightarrow>
      (\<exists>s'. drawtext_fp e lp tmp s = Inr s' \<and>
         measurements (new_events s s') = [] \<and>
         map (\<lambda>(d, x0, y0, w, h). w) (fills (new_events s s')) =
           [fwidth (deref lp s) * int (char_count (formatted e lp tmp s))])) \<and>
   (formats_ok e lp tmp s \<and> changed e lp tmp s \<and> fwidth (deref lp s) = 0 \<longrightarrow>
      (\<exists>s'. drawtext_fp e lp tmp s = Inr s' \<and>
         measurements (new_events s s') = [formatted e lp tmp s] \<and>
         map (\<lambda>(d, x0, y0, w, h). w) (fills (new_events s s')) =
           [uint (gi_width (extents e (xfont (deref lp s)) (formatted e lp tmp s)))
            + uint (gi_width (extents e (xfont (deref lp s)) (formatted e lp tmp s))) sdiv 8]))"
proof (intro conjI impI)
  assume "XftFontOpenName e (font a) = Some xf \<and> XftColorAllocName e (color a) = Some c"
  then have f: "XftFontOpenName e (font a) = Some xf" and c: "XftColorAllocName e (color a) = Some c"
    by simp_all
  from initline_fp_ok [OF f c, of lp si] kept_width [where fw = "xf_max_advance_width xf" and wz = "gi_width (extents e xf ''0'')"]
  show "\<exists>s'. initline_fp e lp a si = Inr s' \<and>
         fwidth (deref lp s') =
           (if real_of_int (xf_max_advance_width xf)
                 \<le> real_of_int (uint (gi_width (extents e xf ''0''))) * 1.5
            then xf_max_advance_width xf else 0) \<and>
         fwidth (deref lp s') \<le> 98302 \<and>
         warnings (new_events si s') =
           (if real_of_int (xf_max_advance_width xf)
                 \<le> real_of_int (uint (gi_width (extents e xf ''0''))) * 1.5
               \<or> args_debug (args si) \<le> 0
            then [] else [Non_monospaced (font a)])"
    by (auto simp add: not_less split: if_splits)
next
  assume h: "formats_ok e lp tmp s \<and> changed e lp tmp s \<and>
    0 < fwidth (deref lp s) \<and> fwidth (deref lp s) \<le> 98302 \<and>
    char_count (formatted e lp tmp s) = length (formatted e lp tmp s)"
  then have len: "0 < length (formatted e lp tmp s)" "length (formatted e lp tmp s) < 64"
    using formats_ok_length [of e lp tmp s] by simp_all
  from h have a: "0 < fwidth (deref lp s)" and b: "fwidth (deref lp s) \<le> 98302"
    by simp_all
  from fixed_product [OF a b len]
  have p: "c_int (fwidth (deref lp s) * int (length (formatted e lp tmp s))) =
      fwidth (deref lp s) * int (length (formatted e lp tmp s))"
    "fwidth (deref lp s) * int (length (formatted e lp tmp s)) \<noteq> 0"
    by blast+
  then have "c_int (fwidth (deref lp s) * int (length (formatted e lp tmp s))) \<noteq> 0"
    by simp
  from repaint_fp_fixed [OF this, of e] h p
  show "\<exists>s'. drawtext_fp e lp tmp s = Inr s' \<and>
         measurements (new_events s s') = [] \<and>
         map (\<lambda>(d, x0, y0, w, h). w) (fills (new_events s s')) =
           [fwidth (deref lp s) * int (char_count (formatted e lp tmp s))]"
    by (simp add: drawtext_fp_ok)
next
  assume h: "formats_ok e lp tmp s \<and> changed e lp tmp s \<and> fwidth (deref lp s) = 0"
  then have "fwidth (deref lp s) = 0" by simp
  from repaint_fp_measured [OF this, of e "formatted e lp tmp s"] h
  show "\<exists>s'. drawtext_fp e lp tmp s = Inr s' \<and>
         measurements (new_events s s') = [formatted e lp tmp s] \<and>
         map (\<lambda>(d, x0, y0, w, h). w) (fills (new_events s s')) =
           [uint (gi_width (extents e (xfont (deref lp s)) (formatted e lp tmp s)))
            + uint (gi_width (extents e (xfont (deref lp s)) (formatted e lp tmp s))) sdiv 8]"
    by (simp add: drawtext_fp_ok)
qed

text \<open>The font \<open>mono\<close> (advance 100, \<open>0\<close> 70 wide) is kept as fixed pitch and the
  text \<open>01\<close>, of two one-byte characters, is cleared 200 wide; the font \<open>wide\<close> (advance 120) is not, with
  one warning at debug level 1, and a line without \<open>fwidth\<close> clears
  140 + 17.\<close>

theorem fixed_pitch_policy_witness:
  "(\<exists>s'. initline_fp demo_env Text1 (args_text1 demo_args) (start demo_args) = Inr s' \<and>
         fwidth (deref Text1 s') = 100 \<and>
         warnings (new_events (start demo_args) s') = []) \<and>
   (\<exists>s'. initline_fp demo_env Text1 wide_arg (start demo_args) = Inr s' \<and>
         fwidth (deref Text1 s') = 0 \<and>
         warnings (new_events (start demo_args) s') = [Non_monospaced ''wide'']) \<and>
   (\<exists>s'. drawtext_fp demo_env Text1 (demo_tm 1) demo_world = Inr s' \<and>
         measurements (new_events demo_world s') = [] \<and>
         map (\<lambda>(d, x0, y0, w, h). w) (fills (new_events demo_world s')) = [200]) \<and>
   (\<exists>s'. drawtext_fp demo_env Text1 (demo_tm 1) prop_world = Inr s' \<and>
         measurements (new_events prop_world s') = [''01''] \<and>
         map (\<lambda>(d, x0, y0, w, h). w) (fills (new_events prop_world s')) = [157])"
proof -
  have m: "XftFontOpenName demo_env (font (args_text1 demo_args)) = Some (demo_font ''mono'') \<and>
      XftColorAllocName demo_env (color (args_text1 demo_args)) = Some 5"
    and w: "XftFontOpenName demo_env (font wide_arg) = Some (demo_font ''wide'') \<and>
      XftColorAllocName demo_env (color wide_arg) = Some 5"
    by (simp_all add: demo_env_def demo_args_def wide_arg_def)
  have z: "uint (gi_width (extents demo_env xf ''0'')) = 70" for xf
    by (simp add: demo_env_def)
  have adv: "xf_max_advance_width (demo_font ''mono'') = 100"
    "xf_max_advance_width (demo_font ''wide'') = 120"
    by (simp_all add: demo_font_def)
  have dbg: "args_debug (args (start demo_args)) = 1" "font wide_arg = ''wide''"
    by (simp_all add: start_def demo_args_def wide_arg_def)
  have 1: "\<exists>s'. initline_fp demo_env Text1 (args_text1 demo_args) (start demo_args) = Inr s' \<and>
         fwidth (deref Text1 s') = 100 \<and>
         warnings (new_events (start demo_args) s') = []"
    using fixed_pitch_policy [where e = demo_env and a = "args_text1 demo_args"
        and xf = "demo_font ''mono''" and c = 5 and lp = Text1 and si = "start demo_args"
        and tmp = "demo_tm 1" and s = demo_world, THEN conjunct1, rule_format, OF m]
    by (auto simp add: z adv dbg)
  have 2: "\<exists>s'. initline_fp demo_env Text1 wide_arg (start demo_args) = Inr s' \<and>
         fwidth (deref Text1 s') = 0 \<and>
         warnings (new_events (start demo_args) s') = [Non_monospaced ''wide'']"
    using fixed_pitch_policy [where e = demo_env and a = wide_arg
        and xf = "demo_font ''wide''" and c = 5 and lp = Text1 and si = "start demo_args"
        and tmp = "demo_tm 1" and s = demo_world, THEN conjunct1, rule_format, OF w]
    by (auto simp add: z adv dbg)
  have t: "dc_text1 (dc prop_world) = demo_line1\<lparr>fwidth := 0\<rparr>"
    "dc_text1 (dc demo_world) = demo_line1"
    by (simp_all add: prop_world_def demo_world_def)
  have s: "strftime demo_env 64 (fmt (arg demo_line1)) (demo_tm 1) = (2, ''01'')"
    by (simp add: strftime_def demo_defs)
  have l: "buf demo_line1 = ''00''" "fwidth demo_line1 = 100" "xfont demo_line1 = demo_font ''mono''"
    by (simp_all add: demo_line1_def)
  have x: "uint (gi_width (extents demo_env xf ''01'')) = 140" for xf
    by (simp add: demo_env_def)
  have cc: "char_count ''01'' = 2"
    by (simp add: char_count_def)
  have hd: "formats_ok demo_env Text1 (demo_tm 1) demo_world \<and>
      changed demo_env Text1 (demo_tm 1) demo_world \<and>
      0 < fwidth (deref Text1 demo_world) \<and> fwidth (deref Text1 demo_world) \<le> 98302 \<and>
      char_count (formatted demo_env Text1 (demo_tm 1) demo_world) =
        length (formatted demo_env Text1 (demo_tm 1) demo_world)"
    and hp: "formats_ok demo_env Text1 (demo_tm 1) prop_world \<and>
      changed demo_env Text1 (demo_tm 1) prop_world \<and> fwidth (deref Text1 prop_world) = 0"
    and f: "formatted demo_env Text1 (demo_tm 1) demo_world = ''01''"
      "formatted demo_env Text1 (demo_tm 1) prop_world = ''01''"
    by (simp_all add: formats_ok_def changed_def formatted_def t s l cc)
  have 3: "\<exists>s'. drawtext_fp demo_env Text1 (demo_tm 1) demo_world = Inr s' \<and>
         measurements (new_events demo_world s') = [] \<and>
         map (\<lambda>(d, x0, y0, w, h). w) (fills (new_events demo_world s')) = [200]"
    using fixed_pitch_policy [where e = demo_env and a = wide_arg
        and xf = "demo_font ''wide''" and c = 5 and lp = Text1 and si = "start demo_args"
        and tmp = "demo_tm 1" and s = demo_world, THEN conjunct2, THEN conjunct1,
        rule_format, OF hd]
    by (simp add: f t l cc)
  have 4: "\<exists>s'. drawtext_fp demo_env Text1 (demo_tm 1) prop_world = Inr s' \<and>
         measurements (new_events prop_world s') = [''01''] \<and>
         map (\<lambda>(d, x0, y0, w, h). w) (fills (new_events prop_world s')) = [157]"
    using fixed_pitch_policy [where e = demo_env and a = wide_arg
        and xf = "demo_font ''wide''" and c = 5 and lp = Text1 and si = "start demo_args"
        and tmp = "demo_tm 1" and s = prop_world, THEN conjunct2, THEN conjunct2,
        rule_format, OF hp]
    by (simp add: f t l x)
  from 1 2 3 4 show ?thesis by blast
qed


end
